theory Spec2Isabelle
  imports Complex_Main "HOL-Library.Sublist"
begin

section \<open>JavaScript values\<close>

text \<open>
  The controller and the upload service are JavaScript: request fields are untyped JSON
  values. A number is the real it denotes, or one of the three non-finite doubles; the
  code under study performs no arithmetic on numbers, it only tests and forwards them.
\<close>

datatype jsnum = Fin real | NaN | PosInf | NegInf

datatype jsval =
    JUndefined
  | JNull
  | JBool bool
  | JNum jsnum
  | JStr string
  | JArr "jsval list"
  | JObj "(string \<times> jsval) list"

text \<open>A thrown \<^verbatim>\<open>Error\<close> object; only its \<^verbatim>\<open>message\<close> is ever read.\<close>

datatype js_error = Error (error_message: string)

text \<open>
  The result of an \<^verbatim>\<open>async\<close> function: the promise resolves, rejects, or is never
  settled (an exception that escapes an event handler is not routed to the promise).
\<close>

datatype 'a outcome = Resolved 'a | Rejected js_error | Unsettled

text \<open>ToBoolean, as applied by \<^verbatim>\<open>!x\<close>, \<^verbatim>\<open>x && y\<close> and \<^verbatim>\<open>x ? a : b\<close>.\<close>

fun truthy :: "jsval \<Rightarrow> bool" where
  "truthy JUndefined = False"
| "truthy JNull = False"
| "truthy (JBool b) = b"
| "truthy (JNum n) = (n \<noteq> Fin 0 \<and> n \<noteq> NaN)"
| "truthy (JStr s) = (s \<noteq> [])"
| "truthy (JArr xs) = True"
| "truthy (JObj kvs) = True"

text \<open>\<^verbatim>\<open>Array.isArray(x)\<close>.\<close>

fun isArray :: "jsval \<Rightarrow> bool" where
  "isArray (JArr xs) = True"
| "isArray v = False"

text \<open>The elements of an array value (only read after \<^verbatim>\<open>Array.isArray\<close> succeeded).\<close>

fun elems :: "jsval \<Rightarrow> jsval list" where
  "elems (JArr xs) = xs"
| "elems v = []"

text \<open>
  Property access on an object held as a finite map: a missing property reads as
  \<^verbatim>\<open>undefined\<close>.
\<close>

definition get_prop :: "(string \<rightharpoonup> jsval) \<Rightarrow> string \<Rightarrow> jsval" where
  "get_prop obj k = (case obj k of None \<Rightarrow> JUndefined | Some v \<Rightarrow> v)"

text \<open>
  Reading a named property of a value that is not \<^verbatim>\<open>undefined\<close> or \<^verbatim>\<open>null\<close>: an object
  gives the property's value, \<^verbatim>\<open>undefined\<close> when it has none; any other value has none of
  the properties read here.
\<close>

fun field :: "jsval \<Rightarrow> string \<Rightarrow> jsval" where
  "field (JObj kvs) k = (case map_of kvs k of None \<Rightarrow> JUndefined | Some v \<Rightarrow> v)"
| "field v k = JUndefined"

text \<open>
  Destructuring \<^verbatim>\<open>const { first, ... } = req.body\<close> throws a \<^verbatim>\<open>TypeError\<close> when the
  value is \<^verbatim>\<open>undefined\<close> or \<^verbatim>\<open>null\<close>, naming the first property of the pattern.
\<close>

fun nullish :: "jsval \<Rightarrow> bool" where
  "nullish JUndefined = True"
| "nullish JNull = True"
| "nullish v = False"

definition destructure_error :: "string \<Rightarrow> jsval \<Rightarrow> js_error" where
  "destructure_error first v =
     Error (''Cannot destructure property '' @ [CHR 0x27] @ first @ [CHR 0x27] @ '' of '' @
            [CHR 0x27] @ ''req.body'' @ [CHR 0x27] @ '' as it is '' @
            (if v = JNull then ''null'' else ''undefined'') @ ''.'')"

text \<open>\<^verbatim>\<open>s.startsWith(p)\<close> and \<^verbatim>\<open>s.includes(sub)\<close> on strings.\<close>

definition startsWith :: "string \<Rightarrow> string \<Rightarrow> bool" where
  "startsWith s p = prefix p s"

fun str_includes :: "string \<Rightarrow> string \<Rightarrow> bool" where
  "str_includes [] sub = (sub = [])"
| "str_includes (c # cs) sub = (prefix sub (c # cs) \<or> str_includes cs sub)"

section \<open>Paths and the file system\<close>

text \<open>
  \<^verbatim>\<open>path.basename(p)\<close> (POSIX): trailing separators are skipped, then the last segment
  is taken.
\<close>

definition basename :: "string \<Rightarrow> string" where
  "basename p =
     rev (takeWhile (\<lambda>c. c \<noteq> CHR ''/'') (dropWhile (\<lambda>c. c = CHR ''/'') (rev p)))"

text \<open>
  \<^verbatim>\<open>path.join(__dirname, '../uploads/<folder>', name)\<close>, where \<open>base\<close> is the normalised
  \<^verbatim>\<open>__dirname/../uploads\<close> and \<open>name\<close> is a single segment (a basename, possibly
  with a prefix and a suffix glued on). \<^verbatim>\<open>path.join\<close> normalises its result, so the
  segments \<^verbatim>\<open>.\<close> and \<^verbatim>\<open>..\<close> and the empty segment do not name a child of the folder.
\<close>

definition uploads_join :: "string \<Rightarrow> string \<Rightarrow> string \<Rightarrow> string" where
  "uploads_join base folder name =
     (if name = [] \<or> name = ''.'' then base @ ''/'' @ folder
      else if name = ''..'' then base
      else base @ ''/'' @ folder @ ''/'' @ name)"

text \<open>
  The disk is a table from paths to nodes. A node is a regular file or a directory,
  each with the size \<^verbatim>\<open>stat\<close> reports.
\<close>

datatype fs_node = RegularFile nat | Directory nat

fun node_size :: "fs_node \<Rightarrow> nat" where
  "node_size (RegularFile n) = n"
| "node_size (Directory n) = n"

type_synonym filesystem = "string \<rightharpoonup> fs_node"

definition existsSync :: "filesystem \<Rightarrow> string \<Rightarrow> bool" where
  "existsSync d p = (d p \<noteq> None)"

text \<open>\<^verbatim>\<open>fs.unlinkSync\<close> removes a regular file; it throws on a missing path and on a directory.\<close>

definition unlinkSync :: "filesystem \<Rightarrow> string \<Rightarrow> js_error + filesystem" where
  "unlinkSync d p =
     (case d p of
        None \<Rightarrow> Inl (Error ''ENOENT: no such file or directory, unlink'')
      | Some (Directory n) \<Rightarrow> Inl (Error ''EISDIR: illegal operation on a directory, unlink'')
      | Some (RegularFile n) \<Rightarrow> Inr (d(p := None)))"

text \<open>\<^verbatim>\<open>fs.statSync(p).size\<close>.\<close>

definition statSync_size :: "filesystem \<Rightarrow> string \<Rightarrow> js_error + nat" where
  "statSync_size d p =
     (case d p of
        None \<Rightarrow> Inl (Error ''ENOENT: no such file or directory, stat'')
      | Some node \<Rightarrow> Inr (node_size node))"

text \<open>
  \<^verbatim>\<open>fs.renameSync(oldPath, newPath)\<close> on the table of nodes: the node moves and replaces a node
  of the same kind at the target.
\<close>

definition renameSync :: "filesystem \<Rightarrow> string \<Rightarrow> string \<Rightarrow> js_error + filesystem" where
  "renameSync d oldPath newPath =
     (case d oldPath of
        None \<Rightarrow> Inl (Error ''ENOENT: no such file or directory, rename'')
      | Some (RegularFile n) \<Rightarrow>
          (case d newPath of
             Some (Directory m) \<Rightarrow> Inl (Error ''EISDIR: illegal operation on a directory, rename'')
           | _ \<Rightarrow> Inr (d(oldPath := None, newPath \<mapsto> RegularFile n)))
      | Some (Directory n) \<Rightarrow>
          (case d newPath of
             Some (RegularFile m) \<Rightarrow> Inl (Error ''ENOTDIR: not a directory, rename'')
           | _ \<Rightarrow> Inr (d(oldPath := None, newPath \<mapsto> Directory n))))"

section \<open>The upload service\<close>

text \<open>The file object multer hands over: only these two fields are read.\<close>

record upload_file =
  mimetype :: string
  path :: string

text \<open>The proof record \<^verbatim>\<open>{type, url, thumbnail, size}\<close>; a \<^verbatim>\<open>null\<close> thumbnail is \<open>None\<close>.\<close>

record proof_rec =
  ptype :: string
  url :: string
  thumbnail :: "string option"
  psize :: nat

text \<open>One sharp pipeline: \<^verbatim>\<open>resize(w, h, {fit: 'inside', withoutEnlargement}).jpeg({quality})\<close>.\<close>

record sharp_pipeline =
  width :: nat
  height :: nat
  withoutEnlargement :: bool
  quality :: nat

text \<open>
  What \<^verbatim>\<open>ffmpeg(input).screenshots(...)\<close> does: it raises the \<^verbatim>\<open>end\<close> event after
  writing the frame (of the given size in bytes), raises the \<^verbatim>\<open>error\<close> event, or throws
  at once inside the \<^verbatim>\<open>try\<close> block.
\<close>

datatype ff_event = FfEnd nat | FfError js_error | FfThrow js_error

text \<open>
  The libraries the service calls are parameters: sharp's \<^verbatim>\<open>toFile\<close> (input path,
  pipeline, output path: an error, or the size of the file written) and ffmpeg's
  \<^verbatim>\<open>screenshots\<close> (input path, folder, file name).
\<close>

record upload_env =
  uploads_root :: string
  sharp_toFile :: "filesystem \<Rightarrow> string \<Rightarrow> sharp_pipeline \<Rightarrow> string \<Rightarrow> js_error + nat"
  ffmpeg_screenshots :: "filesystem \<Rightarrow> string \<Rightarrow> string \<Rightarrow> string \<Rightarrow> ff_event"

definition processImage ::
  "upload_env \<Rightarrow> filesystem \<Rightarrow> upload_file \<Rightarrow> proof_rec outcome \<times> filesystem" where
  "processImage env d file =
     (let thumbnailPath =
            uploads_join (uploads_root env) ''thumbnails'' (''thumb_'' @ basename (path file))
      in case sharp_toFile env d (path file)
                \<lparr>width = 300, height = 300, withoutEnlargement = False, quality = 80\<rparr>
                thumbnailPath of
           Inl e \<Rightarrow> (Rejected e, d)
         | Inr thumbSize \<Rightarrow>
            (let d1 = d(thumbnailPath \<mapsto> RegularFile thumbSize);
                 optimizedPath = path file
             in case sharp_toFile env d1 (path file)
                       \<lparr>width = 1200, height = 1200, withoutEnlargement = True, quality = 85\<rparr>
                       (optimizedPath @ ''.tmp'') of
                  Inl e \<Rightarrow> (Rejected e, d1)
                | Inr tmpSize \<Rightarrow>
                   (let d2 = d1(optimizedPath @ ''.tmp'' \<mapsto> RegularFile tmpSize)
                    in case unlinkSync d2 (path file) of
                         Inl e \<Rightarrow> (Rejected e, d2)
                       | Inr d3 \<Rightarrow>
                          (case renameSync d3 (optimizedPath @ ''.tmp'') optimizedPath of
                             Inl e \<Rightarrow> (Rejected e, d3)
                           | Inr d4 \<Rightarrow>
                              (case statSync_size d4 (path file) of
                                 Inl e \<Rightarrow> (Rejected e, d4)
                               | Inr sz \<Rightarrow>
                                  (Resolved
                                     \<lparr>ptype = ''photo'',
                                      url = ''/uploads/photos/'' @ basename (path file),
                                      thumbnail =
                                        Some (''/uploads/thumbnails/thumb_'' @ basename (path file)),
                                      psize = sz\<rparr>,
                                   d4))))))"

text \<open>
  In \<^verbatim>\<open>processVideo\<close> the two event handlers run outside the \<^verbatim>\<open>try\<close> block: when
  \<^verbatim>\<open>fs.statSync\<close> throws inside a handler, the promise is neither resolved nor rejected.
\<close>

definition processVideo ::
  "upload_env \<Rightarrow> filesystem \<Rightarrow> upload_file \<Rightarrow> proof_rec outcome \<times> filesystem" where
  "processVideo env d file =
     (let thumbnailPath =
            uploads_join (uploads_root env) ''thumbnails''
              (''thumb_'' @ basename (path file) @ ''.jpg'')
      in case ffmpeg_screenshots env d (path file)
                (uploads_root env @ ''/thumbnails'')
                (''thumb_'' @ basename (path file) @ ''.jpg'') of
           FfEnd frameSize \<Rightarrow>
             (let d1 = d(thumbnailPath \<mapsto> RegularFile frameSize)
              in case statSync_size d1 (path file) of
                   Inl e \<Rightarrow> (Unsettled, d1)
                 | Inr sz \<Rightarrow>
                    (Resolved
                       \<lparr>ptype = ''video'',
                        url = ''/uploads/videos/'' @ basename (path file),
                        thumbnail =
                          Some (''/uploads/thumbnails/thumb_'' @ basename (path file) @ ''.jpg''),
                        psize = sz\<rparr>,
                     d1))
         | FfError err \<Rightarrow>
             (case statSync_size d (path file) of
                Inl e \<Rightarrow> (Unsettled, d)
              | Inr sz \<Rightarrow>
                 (Resolved
                    \<lparr>ptype = ''video'',
                     url = ''/uploads/videos/'' @ basename (path file),
                     thumbnail = None,
                     psize = sz\<rparr>,
                  d))
         | FfThrow error \<Rightarrow> (Rejected error, d))"

definition processAudio ::
  "upload_env \<Rightarrow> filesystem \<Rightarrow> upload_file \<Rightarrow> proof_rec outcome \<times> filesystem" where
  "processAudio env d file =
     (case statSync_size d (path file) of
        Inl error \<Rightarrow> (Rejected error, d)
      | Inr sz \<Rightarrow>
         (Resolved
            \<lparr>ptype = ''audio'',
             url = ''/uploads/audio/'' @ basename (path file),
             thumbnail = Some ''/uploads/thumbnails/audio_default.png'',
             psize = sz\<rparr>,
          d))"

definition processFile ::
  "upload_env \<Rightarrow> filesystem \<Rightarrow> upload_file \<Rightarrow> proof_rec outcome \<times> filesystem" where
  "processFile env d file =
     (if startsWith (mimetype file) ''image/'' then processImage env d file
      else if startsWith (mimetype file) ''video/'' then processVideo env d file
      else if startsWith (mimetype file) ''audio/'' then processAudio env d file
      else (Rejected (Error ''Type de fichier non pris en charge''), d))"

text \<open>
  \<^verbatim>\<open>deleteFile\<close>: the first matching folder marker decides the folder; for photos and
  videos the thumbnail is unlinked first, when it exists, with no handler of its own
  around that call.
\<close>

definition deleteFile :: "upload_env \<Rightarrow> filesystem \<Rightarrow> string \<Rightarrow> bool outcome \<times> filesystem" where
  "deleteFile env d fileUrl =
     (let fileName = basename fileUrl;
          located =
            (if str_includes fileUrl ''/photos/'' then
               (let filePath = uploads_join (uploads_root env) ''photos'' fileName;
                    thumbnailPath =
                      uploads_join (uploads_root env) ''thumbnails'' (''thumb_'' @ fileName)
                in if existsSync d thumbnailPath then
                     (case unlinkSync d thumbnailPath of
                        Inl e \<Rightarrow> (Inl e, d)
                      | Inr d1 \<Rightarrow> (Inr filePath, d1))
                   else (Inr filePath, d))
             else if str_includes fileUrl ''/videos/'' then
               (let filePath = uploads_join (uploads_root env) ''videos'' fileName;
                    thumbnailPath =
                      uploads_join (uploads_root env) ''thumbnails''
                        (''thumb_'' @ fileName @ ''.jpg'')
                in if existsSync d thumbnailPath then
                     (case unlinkSync d thumbnailPath of
                        Inl e \<Rightarrow> (Inl e, d)
                      | Inr d1 \<Rightarrow> (Inr filePath, d1))
                   else (Inr filePath, d))
             else if str_includes fileUrl ''/audio/'' then
               (Inr (uploads_join (uploads_root env) ''audio'' fileName), d)
             else (Inl (Error ''Type de fichier non reconnu''), d))
      in case located of
           (Inl error, d1) \<Rightarrow> (Rejected error, d1)
         | (Inr filePath, d1) \<Rightarrow>
             (if existsSync d1 filePath then
                (case unlinkSync d1 filePath of
                   Inl error \<Rightarrow> (Rejected error, d1)
                 | Inr d2 \<Rightarrow> (Resolved True, d2))
              else (Resolved False, d1)))"

section \<open>The alert controller\<close>

text \<open>
  The request as the handlers read it: \<^verbatim>\<open>req.body\<close> is whatever the body parser
  left there, a JSON value or \<^verbatim>\<open>undefined\<close>; \<^verbatim>\<open>req.files\<close> is multer's array or
  \<^verbatim>\<open>undefined\<close>; \<^verbatim>\<open>req.user\<close> is the verified principal or \<^verbatim>\<open>undefined\<close>;
  \<^verbatim>\<open>req.headers\<close> and \<^verbatim>\<open>req.query\<close> are always objects.
\<close>

record request =
  body :: jsval
  files :: "upload_file list option"
  user :: "(string \<rightharpoonup> jsval) option"
  headers :: "string \<rightharpoonup> string"
  query :: "string \<rightharpoonup> jsval"

text \<open>\<^verbatim>\<open>res.status(code).json({success, message, data})\<close>.\<close>

record response =
  status :: nat
  success :: bool
  message :: "string option"
  data :: "jsval option"

text \<open>The object \<^verbatim>\<open>alertData\<close> handed to \<^verbatim>\<open>alertService.createAlert\<close>.\<close>

record alertData =
  serviceId :: jsval
  category :: jsval
  description :: jsval
  coordinates :: jsval
  address :: jsval
  isAnonymous :: bool
  proofs :: "jsval list"

text \<open>
  \<^verbatim>\<open>services/alert.service\<close> is a collaborator of the controller: its three operations
  are parameters that read and write the alert collection. Every invocation is recorded
  in a log, so that "the service is never invoked" is a statement about that log.
\<close>

type_synonym store = "jsval list"

datatype svc_call =
    CreateAlertCall alertData jsval
  | GetAlertsNearbyCall "jsnum list" jsnum
  | UpdateAlertStatusCall jsval jsval jsval jsval

record alert_service =
  svc_createAlert :: "alertData \<Rightarrow> jsval \<Rightarrow> store \<Rightarrow> (js_error + jsval) \<times> store"
  svc_getAlertsNearby :: "jsnum list \<Rightarrow> jsnum \<Rightarrow> store \<Rightarrow> (js_error + jsval) \<times> store"
  svc_updateAlertStatus ::
    "jsval \<Rightarrow> jsval \<Rightarrow> jsval \<Rightarrow> jsval \<Rightarrow> store \<Rightarrow> (js_error + jsval) \<times> store"

text \<open>
  The environment of the controller: the upload service's libraries, the alert service,
  \<^verbatim>\<open>process.env.SERVICE_API_KEY\<close> (\<open>None\<close> when unset) and the built-ins
  \<^verbatim>\<open>parseFloat\<close> and \<^verbatim>\<open>parseInt\<close>, which are left uninterpreted.
\<close>

record env =
  uploadService :: upload_env
  alertService :: alert_service
  SERVICE_API_KEY :: "string option"
  parseFloat :: "jsval \<Rightarrow> jsnum"
  parseInt :: "jsval \<Rightarrow> jsnum"

record world =
  disk :: filesystem
  store :: store
  svc_log :: "svc_call list"

definition invoke ::
  "svc_call \<Rightarrow> (store \<Rightarrow> (js_error + jsval) \<times> store) \<Rightarrow> world \<Rightarrow> (js_error + jsval) \<times> world" where
  "invoke c f w =
     (case f (store w) of
        (r, st) \<Rightarrow> (r, w\<lparr>store := st, svc_log := svc_log w @ [c]\<rparr>))"

text \<open>The \<^verbatim>\<open>catch\<close> blocks: \<^verbatim>\<open>{success: false, message: error.message || fallback}\<close>.\<close>

definition error_response :: "nat \<Rightarrow> js_error \<Rightarrow> string \<Rightarrow> response" where
  "error_response code error fallback =
     \<lparr>status = code, success = False,
      message = Some (if error_message error = [] then fallback else error_message error),
      data = None\<rparr>"

definition msg_coordinates_required :: string where
  "msg_coordinates_required =
     ''Les coordonn'' @ [CHR 0xE9] @
     ''es de localisation sont requises (format: [longitude, latitude])''"

definition msg_alert_created :: string where
  "msg_alert_created =
     ''Alerte cr'' @ [CHR 0xE9, CHR 0xE9] @ ''e avec succ'' @ [CHR 0xE8] @ ''s''"

definition msg_create_failed :: string where
  "msg_create_failed =
     ''Erreur lors de la cr'' @ [CHR 0xE9] @ ''ation de l'' @ [CHR 0x27] @ ''alerte''"

definition msg_nearby_required :: string where
  "msg_nearby_required =
     ''Les coordonn'' @ [CHR 0xE9] @ ''es (longitude, latitude) sont requises''"

definition msg_nearby_failed :: string where
  "msg_nearby_failed =
     ''Erreur lors de la recherche d'' @ [CHR 0x27] @ ''alertes '' @ [CHR 0xE0] @
     '' proximit'' @ [CHR 0xE9]"

definition msg_auth_required :: string where
  "msg_auth_required = ''Authentification requise''"

definition msg_status_fields_required :: string where
  "msg_status_fields_required =
     ''L'' @ [CHR 0x27] @ ''ID de l'' @ [CHR 0x27] @ ''alerte et le statut sont requis''"

definition msg_status_updated :: string where
  "msg_status_updated =
     ''Statut de l'' @ [CHR 0x27] @ ''alerte mis '' @ [CHR 0xE0] @ '' jour avec succ'' @
     [CHR 0xE8] @ ''s''"

definition msg_status_failed :: string where
  "msg_status_failed =
     ''Erreur lors de la mise '' @ [CHR 0xE0] @ '' jour du statut''"

text \<open>The object \<^verbatim>\<open>processFile\<close> returns, as the JSON value pushed onto \<^verbatim>\<open>proofs\<close>.\<close>

definition proof_json :: "proof_rec \<Rightarrow> jsval" where
  "proof_json p =
     JObj [(''type'', JStr (ptype p)),
           (''url'', JStr (url p)),
           (''thumbnail'', (case thumbnail p of None \<Rightarrow> JNull | Some t \<Rightarrow> JStr t)),
           (''size'', JNum (Fin (real (psize p))))]"

text \<open>
  The loop \<^verbatim>\<open>for (const file of req.files)\<close>: each file is awaited in turn and its
  result pushed; the first rejection leaves the loop.
\<close>

fun process_files ::
  "upload_env \<Rightarrow> filesystem \<Rightarrow> upload_file list \<Rightarrow> jsval list \<Rightarrow> jsval list outcome \<times> filesystem" where
  "process_files uenv d [] acc = (Resolved acc, d)"
| "process_files uenv d (file # rest) acc =
     (case processFile uenv d file of
        (Resolved processedFile, d1) \<Rightarrow> process_files uenv d1 rest (acc @ [proof_json processedFile])
      | (Rejected error, d1) \<Rightarrow> (Rejected error, d1)
      | (Unsettled, d1) \<Rightarrow> (Unsettled, d1))"

text \<open>
  Lines 34 to 52 of the controller: where the proof list comes from. The first test is
  \<^verbatim>\<open>req.files && req.files.length > 0\<close>: an undefined \<^verbatim>\<open>req.files\<close> behaves as an empty
  array there.
\<close>

definition resolve_proofs ::
  "upload_env \<Rightarrow> request \<Rightarrow> filesystem \<Rightarrow> jsval list outcome \<times> filesystem" where
  "resolve_proofs uenv req d =
     (let uploaded = (case files req of None \<Rightarrow> [] | Some fs \<Rightarrow> fs)
      in if length uploaded > 0 then process_files uenv d uploaded []
         else if truthy (field (body req) ''proofs'')
                 \<and> isArray (field (body req) ''proofs'')
                 \<and> length (elems (field (body req) ''proofs'')) > 0 then
           (Resolved (elems (field (body req) ''proofs'')), d)
         else (Resolved [], d))"

definition citizenId_of :: "request \<Rightarrow> jsval" where
  "citizenId_of req = (case user req of None \<Rightarrow> JNull | Some u \<Rightarrow> get_prop u ''sub'')"

definition alertData_of :: "request \<Rightarrow> jsval list \<Rightarrow> alertData" where
  "alertData_of req ps =
     \<lparr>serviceId = field (body req) ''serviceId'',
      category = field (body req) ''category'',
      description = field (body req) ''description'',
      coordinates = field (body req) ''coordinates'',
      address = field (body req) ''address'',
      isAnonymous = (field (body req) ''isAnonymous'' = JStr ''true''
                     \<or> field (body req) ''isAnonymous'' = JBool True),
      proofs = ps\<rparr>"

text \<open>
  \<^verbatim>\<open>createAlert\<close>: the destructuring of \<^verbatim>\<open>req.body\<close> is the first statement inside
  the \<^verbatim>\<open>try\<close> block. \<open>None\<close> as the response means that no response is ever sent
  (the awaited promise is never settled).
\<close>

definition createAlert :: "env \<Rightarrow> request \<Rightarrow> world \<Rightarrow> response option \<times> world" where
  "createAlert env req w =
     (if nullish (body req) then
        (Some (error_response 400 (destructure_error ''serviceId'' (body req)) msg_create_failed),
         w)
      else if \<not> truthy (field (body req) ''coordinates'')
         \<or> \<not> isArray (field (body req) ''coordinates'')
         \<or> length (elems (field (body req) ''coordinates'')) \<noteq> 2 then
        (Some \<lparr>status = 400, success = False,
               message = Some msg_coordinates_required, data = None\<rparr>, w)
      else
        (case resolve_proofs (uploadService env) req (disk w) of
           (Unsettled, d1) \<Rightarrow> (None, w\<lparr>disk := d1\<rparr>)
         | (Rejected error, d1) \<Rightarrow>
             (Some (error_response 400 error msg_create_failed), w\<lparr>disk := d1\<rparr>)
         | (Resolved ps, d1) \<Rightarrow>
             (case invoke (CreateAlertCall (alertData_of req ps) (citizenId_of req))
                     (svc_createAlert (alertService env) (alertData_of req ps) (citizenId_of req))
                     (w\<lparr>disk := d1\<rparr>) of
                (Inl error, w1) \<Rightarrow> (Some (error_response 400 error msg_create_failed), w1)
              | (Inr alert, w1) \<Rightarrow>
                  (Some \<lparr>status = 201, success = True,
                         message = Some msg_alert_created, data = Some alert\<rparr>, w1))))"

definition getAlertsNearby :: "env \<Rightarrow> request \<Rightarrow> world \<Rightarrow> response option \<times> world" where
  "getAlertsNearby env req w =
     (let longitude = get_prop (query req) ''longitude'';
          latitude = get_prop (query req) ''latitude'';
          distance = get_prop (query req) ''distance''
      in if \<not> truthy longitude \<or> \<not> truthy latitude then
           (Some \<lparr>status = 400, success = False,
                  message = Some msg_nearby_required, data = None\<rparr>, w)
         else
           (let coords = [parseFloat env longitude, parseFloat env latitude];
                maxDistance = (if truthy distance then parseInt env distance else Fin 5000)
            in case invoke (GetAlertsNearbyCall coords maxDistance)
                      (svc_getAlertsNearby (alertService env) coords maxDistance) w of
                 (Inl error, w1) \<Rightarrow> (Some (error_response 400 error msg_nearby_failed), w1)
               | (Inr alerts, w1) \<Rightarrow>
                   (Some \<lparr>status = 200, success = True, message = None, data = Some alerts\<rparr>,
                    w1)))"

text \<open>
  \<^verbatim>\<open>updateAlertStatus\<close>: the destructuring of \<^verbatim>\<open>req.body\<close> (line 202) is the first
  statement inside the \<^verbatim>\<open>try\<close> block and comes before the key test (line 206).
\<close>

definition updateAlertStatus :: "env \<Rightarrow> request \<Rightarrow> world \<Rightarrow> response option \<times> world" where
  "updateAlertStatus env req w =
     (if nullish (body req) then
        (Some (error_response 400 (destructure_error ''alertId'' (body req)) msg_status_failed),
         w)
      else
        (let alertId = field (body req) ''alertId'';
             newStatus = field (body req) ''status'';
             comment = field (body req) ''comment'';
             updatedBy = field (body req) ''updatedBy'';
             serviceApiKey = headers req ''x-service-key''
         in if (serviceApiKey = None \<or> serviceApiKey = Some [])
               \<or> serviceApiKey \<noteq> SERVICE_API_KEY env then
              (Some \<lparr>status = 401, success = False,
                     message = Some msg_auth_required, data = None\<rparr>, w)
            else if \<not> truthy alertId \<or> \<not> truthy newStatus then
              (Some \<lparr>status = 400, success = False,
                     message = Some msg_status_fields_required, data = None\<rparr>, w)
            else
              (case invoke (UpdateAlertStatusCall alertId newStatus comment updatedBy)
                      (svc_updateAlertStatus (alertService env) alertId newStatus comment
                         updatedBy)
                      w of
                 (Inl error, w1) \<Rightarrow> (Some (error_response 400 error msg_status_failed), w1)
               | (Inr alert, w1) \<Rightarrow>
                   (Some \<lparr>status = 200, success = True,
                          message = Some msg_status_updated, data = Some alert\<rparr>, w1))))"

section \<open>The persistence operation, from the specification\<close>

text \<open>
  Modelled from the spec: the coordinate validation of \<^verbatim>\<open>alertService.createAlert\<close>
  (\<^verbatim>\<open>services/alert.service\<close> is not among the sources). The specification makes
  coordinates mandatory: a two-element sequence of numbers, longitude first. The range
  check it recommends is not part of the contract.
\<close>

fun lon_lat :: "jsval \<Rightarrow> (real \<times> real) option" where
  "lon_lat (JArr [JNum (Fin lon), JNum (Fin lat)]) = Some (lon, lat)"
| "lon_lat v = None"

text \<open>
  Modelled from the spec: \<^verbatim>\<open>alertService.createAlert\<close> (\<^verbatim>\<open>services/alert.service\<close> is
  not among the sources). The specification's contract for it: the operation fails with
  a validation error on invalid coordinates; on success the alert is persisted with
  the location stored as \<^verbatim>\<open>{type: "Point", coordinates: [longitude, latitude]}\<close>, the
  initial status \<^verbatim>\<open>pending\<close>, an identifier assigned at creation, the owner taken from
  the authenticated principal, the proofs in submission order, no comments and
  system-managed timestamps, and the full stored record is returned.
\<close>

definition spec_createAlert ::
  "jsval \<Rightarrow> alertData \<Rightarrow> jsval \<Rightarrow> store \<Rightarrow> (js_error + jsval) \<times> store" where
  "spec_createAlert now ad citizenId st =
     (case lon_lat (coordinates ad) of
        None \<Rightarrow> (Inl (Error ''ValidationError: coordinates''), st)
      | Some (lon, lat) \<Rightarrow>
          (let alert =
                 JObj [(''id'', JNum (Fin (real (length st)))),
                       (''serviceId'', serviceId ad),
                       (''category'', category ad),
                       (''description'', description ad),
                       (''location'',
                          JObj [(''type'', JStr ''Point''),
                                (''coordinates'', JArr [JNum (Fin lon), JNum (Fin lat)])]),
                       (''address'', address ad),
                       (''isAnonymous'', JBool (isAnonymous ad)),
                       (''citizenId'', citizenId),
                       (''proofs'', JArr (proofs ad)),
                       (''status'', JStr ''pending''),
                       (''comments'', JArr []),
                       (''createdAt'', now),
                       (''updatedAt'', now)]
           in (Inr alert, st @ [alert])))"

section \<open>Sample environments and requests\<close>

definition sample_uploads :: upload_env where
  "sample_uploads =
     \<lparr>uploads_root = ''/srv/uploads'',
      sharp_toFile = (\<lambda>d input pipeline output. Inr 2048),
      ffmpeg_screenshots =
        (\<lambda>d input folder name. FfError (Error ''ffmpeg exited with code 1''))\<rparr>"

definition sample_parse :: "jsval \<Rightarrow> jsnum" where
  "sample_parse v =
     (if v = JStr ''1000'' then Fin 1000
      else if v = JStr ''2.35'' then Fin (235 / 100)
      else if v = JStr ''48.85'' then Fin (4885 / 100)
      else NaN)"

definition sample_service :: alert_service where
  "sample_service =
     \<lparr>svc_createAlert = spec_createAlert (JStr ''2025-06-01T12:00:00.000Z''),
      svc_getAlertsNearby = (\<lambda>coords maxDistance st. (Inr (JArr st), st)),
      svc_updateAlertStatus =
        (\<lambda>alertId newStatus comment updatedBy st. (Inl (Error ''Alerte introuvable''), st))\<rparr>"

definition sample_env :: env where
  "sample_env =
     \<lparr>uploadService = sample_uploads,
      alertService = sample_service,
      SERVICE_API_KEY = Some ''bolle-inter-service-secure-key-2025'',
      parseFloat = sample_parse,
      parseInt = sample_parse\<rparr>"

definition sample_world :: world where
  "sample_world =
     \<lparr>disk = [''/srv/uploads/videos/clip.mp4'' \<mapsto> RegularFile 5000,
              ''/srv/uploads/audio/note.ogg'' \<mapsto> RegularFile 700,
              ''/srv/uploads/photos/pic.png'' \<mapsto> RegularFile 9000],
      store = [],
      svc_log = []\<rparr>"

definition sample_video :: upload_file where
  "sample_video = \<lparr>mimetype = ''video/mp4'', path = ''/srv/uploads/videos/clip.mp4''\<rparr>"

definition sample_audio :: upload_file where
  "sample_audio = \<lparr>mimetype = ''audio/ogg'', path = ''/srv/uploads/audio/note.ogg''\<rparr>"

definition sample_pdf :: upload_file where
  "sample_pdf = \<lparr>mimetype = ''application/pdf'', path = ''/srv/uploads/photos/scan.pdf''\<rparr>"

definition paris :: jsval where
  "paris = JArr [JNum (Fin (235 / 100)), JNum (Fin (4885 / 100))]"

definition sample_request :: request where
  "sample_request =
     \<lparr>body = JObj [(''coordinates'', paris), (''category'', JStr ''pothole'')],
      files = None,
      user = Some [''sub'' \<mapsto> JStr ''citizen-1''],
      headers = Map.empty,
      query = Map.empty\<rparr>"

definition sample_video_request :: request where
  "sample_video_request = sample_request\<lparr>files := Some [sample_video]\<rparr>"

definition sample_inline_request :: request where
  "sample_inline_request =
     sample_request
       \<lparr>body :=
          JObj [(''coordinates'', paris), (''category'', JStr ''pothole''),
                (''proofs'', JArr [JObj [(''type'', JStr ''photo''),
                                         (''url'', JStr ''/uploads/photos/earlier.jpg'')]])]\<rparr>"

definition sample_both_request :: request where
  "sample_both_request = sample_inline_request\<lparr>files := Some [sample_video]\<rparr>"

definition sample_mixed_request :: request where
  "sample_mixed_request =
     sample_request\<lparr>files := Some [sample_audio, sample_pdf, sample_video]\<rparr>"

definition sample_text_request :: request where
  "sample_text_request =
     sample_request\<lparr>body := JObj [(''coordinates'', JArr [JStr ''abc'', JStr ''def''])]\<rparr>"

definition sample_gone_video :: upload_file where
  "sample_gone_video = \<lparr>mimetype = ''video/mp4'', path = ''/srv/uploads/videos/gone.mp4''\<rparr>"

definition sample_gone_audio :: upload_file where
  "sample_gone_audio = \<lparr>mimetype = ''audio/ogg'', path = ''/srv/uploads/videos/gone.mp4''\<rparr>"

definition sample_gone_video_request :: request where
  "sample_gone_video_request = sample_request\<lparr>files := Some [sample_gone_video]\<rparr>"

definition sample_gone_audio_request :: request where
  "sample_gone_audio_request = sample_request\<lparr>files := Some [sample_gone_audio]\<rparr>"

definition sample_wrong_key_request :: request where
  "sample_wrong_key_request =
     sample_request
       \<lparr>body := JObj [(''alertId'', JStr ''a1''), (''status'', JStr ''resolved'')],
        headers := [''x-service-key'' \<mapsto> ''guess'']\<rparr>"

definition sample_no_body_request :: request where
  "sample_no_body_request = sample_wrong_key_request\<lparr>body := JUndefined\<rparr>"

definition sample_null_body_request :: request where
  "sample_null_body_request = sample_wrong_key_request\<lparr>body := JNull\<rparr>"

definition sample_nearby_request :: request where
  "sample_nearby_request =
     sample_request
       \<lparr>query := [''longitude'' \<mapsto> JStr ''2.35'', ''latitude'' \<mapsto> JStr ''48.85'']\<rparr>"

definition sample_image :: upload_file where
  "sample_image = \<lparr>mimetype = ''image/png'', path = ''/srv/uploads/photos/pic.png''\<rparr>"

definition sample_disk_thumbnail_directory :: filesystem where
  "sample_disk_thumbnail_directory =
     [''/srv/uploads/thumbnails/thumb_pic.png'' \<mapsto> Directory 4096]"

definition sample_disk_photo :: filesystem where
  "sample_disk_photo =
     [''/srv/uploads/photos/pic.png'' \<mapsto> RegularFile 9000,
      ''/srv/uploads/thumbnails/thumb_pic.png'' \<mapsto> RegularFile 300]"

section \<open>Facts about the upload service\<close>

lemma video_not_image: "startsWith m ''video/'' \<Longrightarrow> \<not> startsWith m ''image/''"
  by (cases m) (auto simp: startsWith_def)

lemma audio_not_image: "startsWith m ''audio/'' \<Longrightarrow> \<not> startsWith m ''image/''"
  by (cases m) (auto simp: startsWith_def)

lemma audio_not_video: "startsWith m ''audio/'' \<Longrightarrow> \<not> startsWith m ''video/''"
  by (cases m) (auto simp: startsWith_def)

lemma processFile_image:
  "startsWith (mimetype file) ''image/'' \<Longrightarrow> processFile uenv d file = processImage uenv d file"
  by (simp add: processFile_def)

lemma processFile_video:
  "startsWith (mimetype file) ''video/'' \<Longrightarrow> processFile uenv d file = processVideo uenv d file"
  by (simp add: processFile_def video_not_image)

lemma processFile_audio:
  "startsWith (mimetype file) ''audio/'' \<Longrightarrow> processFile uenv d file = processAudio uenv d file"
  by (simp add: processFile_def audio_not_image audio_not_video)

lemma processImage_resolved:
  "processImage uenv d file = (Resolved p, d') \<Longrightarrow>
     ptype p = ''photo'' \<and> url p = ''/uploads/photos/'' @ basename (path file)"
  by (auto simp: processImage_def Let_def split: sum.splits)

lemma processVideo_resolved:
  "processVideo uenv d file = (Resolved p, d') \<Longrightarrow>
     ptype p = ''video'' \<and> url p = ''/uploads/videos/'' @ basename (path file)"
  by (auto simp: processVideo_def Let_def split: sum.splits ff_event.splits)

lemma processAudio_resolved:
  "processAudio uenv d file = (Resolved p, d') \<Longrightarrow>
     ptype p = ''audio'' \<and> url p = ''/uploads/audio/'' @ basename (path file)"
  by (auto simp: processAudio_def Let_def split: sum.splits)

lemma processVideo_error_event:
  assumes "ffmpeg_screenshots uenv d (path file) (uploads_root uenv @ ''/thumbnails'')
             (''thumb_'' @ basename (path file) @ ''.jpg'') = FfError err"
      and "d (path file) = Some node"
  shows "processVideo uenv d file =
           (Resolved \<lparr>ptype = ''video'', url = ''/uploads/videos/'' @ basename (path file),
                      thumbnail = None, psize = node_size node\<rparr>, d)"
  using assms by (simp add: processVideo_def statSync_size_def)

lemma basename_no_slash: "CHR ''/'' \<notin> set (basename p)"
proof -
  have "\<forall>c \<in> set (takeWhile (\<lambda>c. c \<noteq> CHR ''/'') xs). c \<noteq> CHR ''/''" for xs
    by (auto dest: set_takeWhileD)
  then show ?thesis
    by (auto simp: basename_def)
qed

lemma str_includes_set: "str_includes s sub \<Longrightarrow> set sub \<subseteq> set s"
proof (induction s)
  case Nil
  then show ?case by simp
next
  case (Cons c cs)
  from Cons.prems have "prefix sub (c # cs) \<or> str_includes cs sub"
    by simp
  then show ?case
  proof
    assume "prefix sub (c # cs)"
    then show ?thesis by (rule set_mono_prefix)
  next
    assume "str_includes cs sub"
    with Cons.IH show ?thesis by auto
  qed
qed

lemma no_slash_no_marker:
  assumes "CHR ''/'' \<notin> set b" and "CHR ''/'' \<in> set sub"
  shows "\<not> str_includes b sub" and "\<not> prefix sub b"
  using assms str_includes_set [of b sub] set_mono_prefix [of sub b] by auto

lemma photo_url_marker: "str_includes (''/uploads/photos/'' @ b) ''/photos/''"
  by simp

lemma video_url_marker:
  assumes "CHR ''/'' \<notin> set b"
  shows "str_includes (''/uploads/videos/'' @ b) ''/videos/''"
    and "\<not> str_includes (''/uploads/videos/'' @ b) ''/photos/''"
proof -
  show "str_includes (''/uploads/videos/'' @ b) ''/videos/''" by simp
  have "\<not> str_includes b ''/photos/''" "\<not> prefix ''photos/'' b"
    using no_slash_no_marker [OF assms] by simp_all
  then show "\<not> str_includes (''/uploads/videos/'' @ b) ''/photos/''"
    by simp
qed

lemma audio_url_marker:
  assumes "CHR ''/'' \<notin> set b"
  shows "str_includes (''/uploads/audio/'' @ b) ''/audio/''"
    and "\<not> str_includes (''/uploads/audio/'' @ b) ''/photos/''"
    and "\<not> str_includes (''/uploads/audio/'' @ b) ''/videos/''"
proof -
  show "str_includes (''/uploads/audio/'' @ b) ''/audio/''" by simp
  have "\<not> str_includes b ''/photos/''" "\<not> prefix ''photos/'' b"
       "\<not> str_includes b ''/videos/''" "\<not> prefix ''videos/'' b"
    using no_slash_no_marker [OF assms] by simp_all
  then show "\<not> str_includes (''/uploads/audio/'' @ b) ''/photos/''"
    and "\<not> str_includes (''/uploads/audio/'' @ b) ''/videos/''"
    by simp_all
qed

lemma processAudio_stored:
  "d (path file) = Some node \<Longrightarrow>
   processAudio uenv d file =
     (Resolved \<lparr>ptype = ''audio'', url = ''/uploads/audio/'' @ basename (path file),
                thumbnail = Some ''/uploads/thumbnails/audio_default.png'',
                psize = node_size node\<rparr>, d)"
  by (simp add: processAudio_def statSync_size_def)

lemma processVideo_stored:
  assumes "d (path file) = Some node"
      and "\<forall>e. ffmpeg_screenshots uenv d (path file) (uploads_root uenv @ ''/thumbnails'')
             (''thumb_'' @ basename (path file) @ ''.jpg'') \<noteq> FfThrow e"
  shows "\<exists>p d'. processVideo uenv d file = (Resolved p, d')"
  using assms
  by (cases "ffmpeg_screenshots uenv d (path file) (uploads_root uenv @ ''/thumbnails'')
             (''thumb_'' @ basename (path file) @ ''.jpg'')")
     (auto simp: processVideo_def statSync_size_def Let_def)

lemma processImage_stored:
  assumes stored: "d (path file) = Some (RegularFile n)"
      and sharp: "\<forall>d0 pipeline output. \<exists>m. sharp_toFile uenv d0 (path file) pipeline output = Inr m"
  shows "\<exists>p d'. processImage uenv d file = (Resolved p, d')"
proof -
  let ?thumb = "uploads_join (uploads_root uenv) ''thumbnails'' (''thumb_'' @ basename (path file))"
  from sharp obtain n1 where
    s1: "sharp_toFile uenv d (path file)
           \<lparr>width = 300, height = 300, withoutEnlargement = False, quality = 80\<rparr> ?thumb = Inr n1"
    by blast
  let ?d1 = "d(?thumb \<mapsto> RegularFile n1)"
  from sharp obtain n2 where
    s2: "sharp_toFile uenv ?d1 (path file)
           \<lparr>width = 1200, height = 1200, withoutEnlargement = True, quality = 85\<rparr>
           (path file @ ''.tmp'') = Inr n2"
    by blast
  let ?d2 = "?d1(path file @ ''.tmp'' \<mapsto> RegularFile n2)"
  have "\<exists>k. ?d2 (path file) = Some (RegularFile k)"
    using stored by simp
  then obtain k where k: "?d2 (path file) = Some (RegularFile k)" by blast
  then have u: "unlinkSync ?d2 (path file) = Inr (?d2(path file := None))"
    by (simp add: unlinkSync_def)
  let ?d3 = "?d2(path file := None)"
  have r: "renameSync ?d3 (path file @ ''.tmp'') (path file)
           = Inr (?d3(path file @ ''.tmp'' := None, path file \<mapsto> RegularFile n2))"
    by (simp add: renameSync_def)
  let ?d4 = "?d3(path file @ ''.tmp'' := None, path file \<mapsto> RegularFile n2)"
  have st: "statSync_size ?d4 (path file) = Inr n2"
    by (simp add: statSync_size_def)
  show ?thesis
    unfolding processImage_def Let_def
    by (simp only: s1 s2 u r st sum.case) blast
qed

lemma deleteFile_unrecognised:
  "\<not> str_includes fileUrl ''/photos/'' \<Longrightarrow> \<not> str_includes fileUrl ''/videos/'' \<Longrightarrow>
   \<not> str_includes fileUrl ''/audio/'' \<Longrightarrow>
   deleteFile uenv d fileUrl = (Rejected (Error ''Type de fichier non reconnu''), d)"
  by (simp add: deleteFile_def)

lemma deleteFile_photos:
  "str_includes fileUrl ''/photos/'' \<Longrightarrow>
   deleteFile uenv d fileUrl =
     (let filePath = uploads_join (uploads_root uenv) ''photos'' (basename fileUrl);
          thumbnailPath =
            uploads_join (uploads_root uenv) ''thumbnails'' (''thumb_'' @ basename fileUrl)
      in case d thumbnailPath of
           Some (Directory n) \<Rightarrow>
             (Rejected (Error ''EISDIR: illegal operation on a directory, unlink''), d)
         | Some (RegularFile n) \<Rightarrow>
             (case (d(thumbnailPath := None)) filePath of
                None \<Rightarrow> (Resolved False, d(thumbnailPath := None))
              | Some (Directory m) \<Rightarrow>
                  (Rejected (Error ''EISDIR: illegal operation on a directory, unlink''),
                   d(thumbnailPath := None))
              | Some (RegularFile m) \<Rightarrow>
                  (Resolved True, d(thumbnailPath := None, filePath := None)))
         | None \<Rightarrow>
             (case d filePath of
                None \<Rightarrow> (Resolved False, d)
              | Some (Directory m) \<Rightarrow>
                  (Rejected (Error ''EISDIR: illegal operation on a directory, unlink''), d)
              | Some (RegularFile m) \<Rightarrow> (Resolved True, d(filePath := None))))"
  by (simp add: deleteFile_def Let_def existsSync_def unlinkSync_def
      split: option.split fs_node.split)

lemma deleteFile_videos:
  "\<not> str_includes fileUrl ''/photos/'' \<Longrightarrow> str_includes fileUrl ''/videos/'' \<Longrightarrow>
   deleteFile uenv d fileUrl =
     (let filePath = uploads_join (uploads_root uenv) ''videos'' (basename fileUrl);
          thumbnailPath =
            uploads_join (uploads_root uenv) ''thumbnails''
              (''thumb_'' @ basename fileUrl @ ''.jpg'')
      in case d thumbnailPath of
           Some (Directory n) \<Rightarrow>
             (Rejected (Error ''EISDIR: illegal operation on a directory, unlink''), d)
         | Some (RegularFile n) \<Rightarrow>
             (case (d(thumbnailPath := None)) filePath of
                None \<Rightarrow> (Resolved False, d(thumbnailPath := None))
              | Some (Directory m) \<Rightarrow>
                  (Rejected (Error ''EISDIR: illegal operation on a directory, unlink''),
                   d(thumbnailPath := None))
              | Some (RegularFile m) \<Rightarrow>
                  (Resolved True, d(thumbnailPath := None, filePath := None)))
         | None \<Rightarrow>
             (case d filePath of
                None \<Rightarrow> (Resolved False, d)
              | Some (Directory m) \<Rightarrow>
                  (Rejected (Error ''EISDIR: illegal operation on a directory, unlink''), d)
              | Some (RegularFile m) \<Rightarrow> (Resolved True, d(filePath := None))))"
  by (simp add: deleteFile_def Let_def existsSync_def unlinkSync_def
      split: option.split fs_node.split)

lemma deleteFile_audio:
  "\<not> str_includes fileUrl ''/photos/'' \<Longrightarrow> \<not> str_includes fileUrl ''/videos/'' \<Longrightarrow>
   str_includes fileUrl ''/audio/'' \<Longrightarrow>
   deleteFile uenv d fileUrl =
     (let filePath = uploads_join (uploads_root uenv) ''audio'' (basename fileUrl)
      in case d filePath of
           None \<Rightarrow> (Resolved False, d)
         | Some (Directory m) \<Rightarrow>
             (Rejected (Error ''EISDIR: illegal operation on a directory, unlink''), d)
         | Some (RegularFile m) \<Rightarrow> (Resolved True, d(filePath := None)))"
  by (simp add: deleteFile_def Let_def existsSync_def unlinkSync_def
      split: option.split fs_node.split)

section \<open>Facts about the controller\<close>

lemma truthy_field_not_nullish: "truthy (field b k) \<Longrightarrow> \<not> nullish b"
  by (cases b) simp_all

lemma createAlert_nullish_body:
  "nullish (body req) \<Longrightarrow>
   createAlert env req w =
     (Some (error_response 400 (destructure_error ''serviceId'' (body req)) msg_create_failed),
      w)"
  by (simp add: createAlert_def)

lemma createAlert_bad_coordinates:
  assumes "\<not> nullish (body req)"
      and "\<not> truthy (field (body req) ''coordinates'')
           \<or> \<not> isArray (field (body req) ''coordinates'')
           \<or> length (elems (field (body req) ''coordinates'')) \<noteq> 2"
  shows "createAlert env req w =
           (Some \<lparr>status = 400, success = False,
                  message = Some msg_coordinates_required, data = None\<rparr>, w)"
  using assms by (auto simp: createAlert_def)

lemma createAlert_resolved:
  assumes "truthy (field (body req) ''coordinates'')"
      and "isArray (field (body req) ''coordinates'')"
      and "length (elems (field (body req) ''coordinates'')) = 2"
      and "resolve_proofs (uploadService env) req (disk w) = (Resolved ps, d1)"
  shows "createAlert env req w =
           (case svc_createAlert (alertService env) (alertData_of req ps) (citizenId_of req)
                   (store w) of
              (Inl error, st) \<Rightarrow>
                (Some (error_response 400 error msg_create_failed),
                 w\<lparr>disk := d1, store := st,
                   svc_log := svc_log w @
                     [CreateAlertCall (alertData_of req ps) (citizenId_of req)]\<rparr>)
            | (Inr alert, st) \<Rightarrow>
                (Some \<lparr>status = 201, success = True, message = Some msg_alert_created,
                       data = Some alert\<rparr>,
                 w\<lparr>disk := d1, store := st,
                   svc_log := svc_log w @
                     [CreateAlertCall (alertData_of req ps) (citizenId_of req)]\<rparr>))"
  using assms truthy_field_not_nullish [OF assms(1)]
  by (simp add: createAlert_def invoke_def split: prod.splits sum.splits)

lemma createAlert_rejected:
  assumes "truthy (field (body req) ''coordinates'')"
      and "isArray (field (body req) ''coordinates'')"
      and "length (elems (field (body req) ''coordinates'')) = 2"
      and "resolve_proofs (uploadService env) req (disk w) = (Rejected error, d1)"
  shows "createAlert env req w =
           (Some (error_response 400 error msg_create_failed), w\<lparr>disk := d1\<rparr>)"
  using assms truthy_field_not_nullish [OF assms(1)] by (simp add: createAlert_def)

lemma createAlert_unsettled:
  assumes "truthy (field (body req) ''coordinates'')"
      and "isArray (field (body req) ''coordinates'')"
      and "length (elems (field (body req) ''coordinates'')) = 2"
      and "resolve_proofs (uploadService env) req (disk w) = (Unsettled, d1)"
  shows "createAlert env req w = (None, w\<lparr>disk := d1\<rparr>)"
  using assms truthy_field_not_nullish [OF assms(1)] by (simp add: createAlert_def)

lemma sample_request_coordinates:
  "truthy (field (body sample_request) ''coordinates'')
   \<and> isArray (field (body sample_request) ''coordinates'')
   \<and> length (elems (field (body sample_request) ''coordinates'')) = 2"
  by (simp add: sample_request_def get_prop_def paris_def)

lemma process_files_append:
  "process_files uenv d pre acc = (Resolved ps, d1) \<Longrightarrow>
   process_files uenv d (pre @ rest) acc = process_files uenv d1 rest ps"
proof (induction pre arbitrary: d acc)
  case Nil
  then show ?case by simp
next
  case (Cons f pre)
  then show ?case
    by (auto split: prod.splits outcome.splits)
qed

lemma process_files_stops:
  assumes "process_files uenv d pre [] = (Resolved ps, d1)"
      and "processFile uenv d1 file = (Rejected error, d2)"
  shows "process_files uenv d (pre @ file # post) [] = (Rejected error, d2)"
  using process_files_append [OF assms(1), of "file # post"] assms(2) by simp

lemma process_files_results:
  "process_files uenv d fs acc = (Resolved ps, d') \<Longrightarrow>
   \<exists>rs. ps = acc @ rs \<and>
        list_all2
          (\<lambda>file p. \<exists>d0 d1 r. processFile uenv d0 file = (Resolved r, d1) \<and> p = proof_json r)
          fs rs"
proof (induction fs arbitrary: d acc)
  case Nil
  then show ?case by simp
next
  case (Cons f fs)
  from Cons.prems obtain r d1 where
    r: "processFile uenv d f = (Resolved r, d1)" and
    rest: "process_files uenv d1 fs (acc @ [proof_json r]) = (Resolved ps, d')"
    by (auto split: prod.splits outcome.splits)
  from Cons.IH [OF rest] obtain rs where
    "ps = (acc @ [proof_json r]) @ rs" and
    "list_all2
       (\<lambda>file p. \<exists>d0 d1 r. processFile uenv d0 file = (Resolved r, d1) \<and> p = proof_json r)
       fs rs"
    by blast
  with r show ?case
    by (intro exI [of _ "proof_json r # rs"]) auto
qed

lemma resolve_proofs_uploaded:
  "files req = Some fs \<Longrightarrow> fs \<noteq> [] \<Longrightarrow>
   resolve_proofs uenv req d = process_files uenv d fs []"
  by (simp add: resolve_proofs_def)

lemma resolve_proofs_inline:
  "files req = None \<or> files req = Some [] \<Longrightarrow>
   field (body req) ''proofs'' = JArr xs \<Longrightarrow> xs \<noteq> [] \<Longrightarrow>
   resolve_proofs uenv req d = (Resolved xs, d)"
  by (auto simp: resolve_proofs_def)

lemma resolve_proofs_none:
  "files req = None \<or> files req = Some [] \<Longrightarrow>
   \<not> isArray (field (body req) ''proofs'') \<or> elems (field (body req) ''proofs'') = [] \<Longrightarrow>
   resolve_proofs uenv req d = (Resolved [], d)"
  by (auto simp: resolve_proofs_def)

lemma createAlert_log:
  assumes "truthy (field (body req) ''coordinates'')"
      and "isArray (field (body req) ''coordinates'')"
      and "length (elems (field (body req) ''coordinates'')) = 2"
      and "resolve_proofs (uploadService env) req (disk w) = (Resolved ps, d1)"
  shows "svc_log (snd (createAlert env req w)) =
           svc_log w @ [CreateAlertCall (alertData_of req ps) (citizenId_of req)]
         \<and> disk (snd (createAlert env req w)) = d1"
  using createAlert_resolved [OF assms] by (auto split: prod.splits sum.splits)

lemma createAlert_ignores_inline:
  assumes "files req = Some fs" and "fs \<noteq> []"
      and same: "\<forall>k. k \<noteq> ''proofs'' \<longrightarrow> field other k = field (body req) k"
      and defined: "\<not> nullish (body req)" "\<not> nullish other"
  shows "createAlert env (req\<lparr>body := other\<rparr>) w = createAlert env req w"
proof -
  have a: "resolve_proofs uenv (req\<lparr>body := other\<rparr>) d = resolve_proofs uenv req d" for uenv d
    using assms(1,2) by (simp add: resolve_proofs_def)
  have b: "alertData_of (req\<lparr>body := other\<rparr>) ps = alertData_of req ps" for ps
    using same by (simp add: alertData_of_def)
  have c: "citizenId_of (req\<lparr>body := other\<rparr>) = citizenId_of req"
    by (simp add: citizenId_of_def)
  have e: "field (body (req\<lparr>body := other\<rparr>)) ''coordinates'' = field (body req) ''coordinates''"
    using same by simp
  have f: "nullish (body (req\<lparr>body := other\<rparr>)) = False" "nullish (body req) = False"
    using defined by simp_all
  show ?thesis
    unfolding createAlert_def a b c e f by (simp only: if_False)
qed

lemma process_files_hangs:
  assumes "process_files uenv d pre [] = (Resolved ps, d1)"
      and "processFile uenv d1 file = (Unsettled, d2)"
  shows "process_files uenv d (pre @ file # post) [] = (Unsettled, d2)"
  using process_files_append [OF assms(1), of "file # post"] assms(2) by simp

lemma createAlert_processing_rejected:
  assumes "files req = Some (pre @ file # post)"
      and "process_files (uploadService env) (disk w) pre [] = (Resolved ps, d1)"
      and "processFile (uploadService env) d1 file = (Rejected error, d2)"
  shows "\<exists>r. fst (createAlert env req w) = Some r
             \<and> status r = 400 \<and> success r = False \<and> data r = None
             \<and> svc_log (snd (createAlert env req w)) = svc_log w
             \<and> store (snd (createAlert env req w)) = store w"
proof -
  consider (nobody) "nullish (body req)"
    | (bad) "\<not> nullish (body req)"
        "\<not> truthy (field (body req) ''coordinates'')
         \<or> \<not> isArray (field (body req) ''coordinates'')
         \<or> length (elems (field (body req) ''coordinates'')) \<noteq> 2"
    | (good) "truthy (field (body req) ''coordinates'')"
        "isArray (field (body req) ''coordinates'')"
        "length (elems (field (body req) ''coordinates'')) = 2"
    by blast
  then show ?thesis
  proof cases
    case nobody
    then show ?thesis
      by (simp add: createAlert_nullish_body error_response_def)
  next
    case bad
    from createAlert_bad_coordinates [OF bad] show ?thesis by simp
  next
    case good
    have "resolve_proofs (uploadService env) req (disk w) = (Rejected error, d2)"
      using assms(1) process_files_stops [OF assms(2,3)] by (simp add: resolve_proofs_def)
    from createAlert_rejected [OF good this] show ?thesis
      by (simp add: error_response_def)
  qed
qed

lemma createAlert_processing_unsettled:
  assumes "files req = Some (pre @ file # post)"
      and "process_files (uploadService env) (disk w) pre [] = (Resolved ps, d1)"
      and "processFile (uploadService env) d1 file = (Unsettled, d2)"
  shows "svc_log (snd (createAlert env req w)) = svc_log w
         \<and> store (snd (createAlert env req w)) = store w
         \<and> (\<forall>r. fst (createAlert env req w) = Some r \<longrightarrow> status r = 400 \<and> success r = False)
         \<and> (truthy (field (body req) ''coordinates'')
              \<and> isArray (field (body req) ''coordinates'')
              \<and> length (elems (field (body req) ''coordinates'')) = 2
             \<longrightarrow> createAlert env req w = (None, w\<lparr>disk := d2\<rparr>))"
proof -
  consider (nobody) "nullish (body req)"
    | (bad) "\<not> nullish (body req)"
        "\<not> truthy (field (body req) ''coordinates'')
         \<or> \<not> isArray (field (body req) ''coordinates'')
         \<or> length (elems (field (body req) ''coordinates'')) \<noteq> 2"
    | (good) "truthy (field (body req) ''coordinates'')"
        "isArray (field (body req) ''coordinates'')"
        "length (elems (field (body req) ''coordinates'')) = 2"
    by blast
  then show ?thesis
  proof cases
    case nobody
    from truthy_field_not_nullish [of "body req" "''coordinates''"] nobody
    have "\<not> truthy (field (body req) ''coordinates'')" by blast
    with nobody show ?thesis
      by (simp add: createAlert_nullish_body error_response_def)
  next
    case bad
    from createAlert_bad_coordinates [OF bad] bad(2) show ?thesis by auto
  next
    case good
    have "resolve_proofs (uploadService env) req (disk w) = (Unsettled, d2)"
      using assms(1) process_files_hangs [OF assms(2,3)] by (simp add: resolve_proofs_def)
    from createAlert_unsettled [OF good this] show ?thesis
      by simp
  qed
qed

lemma updateAlertStatus_nullish_body:
  "nullish (body req) \<Longrightarrow>
   updateAlertStatus env req w =
     (Some (error_response 400 (destructure_error ''alertId'' (body req)) msg_status_failed), w)"
  by (simp add: updateAlertStatus_def)

lemma updateAlertStatus_rejected_key:
  assumes "\<not> nullish (body req)"
      and "headers req ''x-service-key'' = None
           \<or> headers req ''x-service-key'' \<noteq> SERVICE_API_KEY env"
  shows "updateAlertStatus env req w =
           (Some \<lparr>status = 401, success = False,
                  message = Some msg_auth_required, data = None\<rparr>, w)"
  using assms by (auto simp: updateAlertStatus_def Let_def)

lemma sample_video_processed:
  "processFile sample_uploads (disk sample_world) sample_video =
     (Resolved \<lparr>ptype = ''video'', url = ''/uploads/videos/clip.mp4'',
                thumbnail = None, psize = 5000\<rparr>, disk sample_world)"
  by (simp add: processFile_def processVideo_def startsWith_def sample_video_def
      sample_uploads_def sample_world_def statSync_size_def basename_def)

lemma sample_audio_processed:
  "processFile sample_uploads (disk sample_world) sample_audio =
     (Resolved \<lparr>ptype = ''audio'', url = ''/uploads/audio/note.ogg'',
                thumbnail = Some ''/uploads/thumbnails/audio_default.png'', psize = 700\<rparr>,
      disk sample_world)"
  by (simp add: processFile_def processAudio_def startsWith_def sample_audio_def
      sample_world_def statSync_size_def basename_def)

lemma sample_pdf_rejected:
  "processFile sample_uploads d sample_pdf =
     (Rejected (Error ''Type de fichier non pris en charge''), d)"
  by (simp add: processFile_def startsWith_def sample_pdf_def)

lemma sample_inline_coordinates:
  "truthy (field (body sample_inline_request) ''coordinates'')
   \<and> isArray (field (body sample_inline_request) ''coordinates'')
   \<and> length (elems (field (body sample_inline_request) ''coordinates'')) = 2"
  by (simp add: sample_inline_request_def sample_request_def get_prop_def paris_def)

section \<open>The claims\<close>

text \<open>
  C1. With valid coordinates, the proof list handed to the persistence operation comes
  from exactly one source, tried in this order. (a) When at least one uploaded file is
  present, the list is what the loop over the uploaded files produces: one
  \<^verbatim>\<open>processFile\<close> result per file, in order (a file whose processing is rejected aborts
  the creation instead, which is C9); the inline \<^verbatim>\<open>proofs\<close> field is never read:
  any other body that agrees on every property but \<^verbatim>\<open>proofs\<close> gives the same result. (b) Otherwise, when the body's \<^verbatim>\<open>proofs\<close>
  is a non-empty array, that array is the list, verbatim, and no file is touched.
  (c) Otherwise the list is empty.
\<close>

theorem createAlert_proof_source_precedence:
  assumes "truthy (field (body req) ''coordinates'')"
      and "isArray (field (body req) ''coordinates'')"
      and "length (elems (field (body req) ''coordinates'')) = 2"
  shows "(\<forall>fs ps d1.
            files req = Some fs \<and> fs \<noteq> []
            \<and> process_files (uploadService env) (disk w) fs [] = (Resolved ps, d1)
            \<longrightarrow> svc_log (snd (createAlert env req w)) =
                  svc_log w @ [CreateAlertCall (alertData_of req ps) (citizenId_of req)]
                \<and> proofs (alertData_of req ps) = ps
                \<and> list_all2
                    (\<lambda>file p. \<exists>d0 d' r. processFile (uploadService env) d0 file = (Resolved r, d')
                                       \<and> p = proof_json r) fs ps)
         \<and> (\<forall>fs other.
              files req = Some fs \<and> fs \<noteq> []
              \<and> (\<forall>k. k \<noteq> ''proofs'' \<longrightarrow> field other k = field (body req) k)
              \<longrightarrow> createAlert env (req\<lparr>body := other\<rparr>) w = createAlert env req w)
         \<and> (\<forall>xs.
              (files req = None \<or> files req = Some [])
              \<and> field (body req) ''proofs'' = JArr xs \<and> xs \<noteq> []
              \<longrightarrow> svc_log (snd (createAlert env req w)) =
                    svc_log w @ [CreateAlertCall (alertData_of req xs) (citizenId_of req)]
                  \<and> proofs (alertData_of req xs) = xs
                  \<and> disk (snd (createAlert env req w)) = disk w)
         \<and> ((files req = None \<or> files req = Some [])
              \<and> (\<not> isArray (field (body req) ''proofs'')
                   \<or> elems (field (body req) ''proofs'') = [])
              \<longrightarrow> svc_log (snd (createAlert env req w)) =
                    svc_log w @ [CreateAlertCall (alertData_of req []) (citizenId_of req)]
                  \<and> proofs (alertData_of req []) = []
                  \<and> disk (snd (createAlert env req w)) = disk w)"
proof (intro conjI allI impI)
  fix fs ps d1
  assume h: "files req = Some fs \<and> fs \<noteq> []
             \<and> process_files (uploadService env) (disk w) fs [] = (Resolved ps, d1)"
  then have "resolve_proofs (uploadService env) req (disk w) = (Resolved ps, d1)"
    by (simp add: resolve_proofs_uploaded)
  from createAlert_log [OF assms this]
  show "svc_log (snd (createAlert env req w)) =
          svc_log w @ [CreateAlertCall (alertData_of req ps) (citizenId_of req)]"
    by simp
  show "proofs (alertData_of req ps) = ps"
    by (simp add: alertData_of_def)
  from h process_files_results [of "uploadService env" "disk w" fs "[]" ps d1]
  show "list_all2
          (\<lambda>file p. \<exists>d0 d' r. processFile (uploadService env) d0 file = (Resolved r, d')
                             \<and> p = proof_json r) fs ps"
    by simp
next
  fix fs other
  assume h: "files req = Some fs \<and> fs \<noteq> []
             \<and> (\<forall>k. k \<noteq> ''proofs'' \<longrightarrow> field other k = field (body req) k)"
  then have "field other ''coordinates'' = field (body req) ''coordinates''"
    by simp
  with assms(1) have "\<not> nullish other" "\<not> nullish (body req)"
    using truthy_field_not_nullish [of other "''coordinates''"]
      truthy_field_not_nullish [of "body req" "''coordinates''"] by simp_all
  with h show "createAlert env (req\<lparr>body := other\<rparr>) w = createAlert env req w"
    using createAlert_ignores_inline [of req fs other env w] by simp
next
  fix xs
  assume h: "(files req = None \<or> files req = Some [])
             \<and> field (body req) ''proofs'' = JArr xs \<and> xs \<noteq> []"
  then have r: "resolve_proofs (uploadService env) req (disk w) = (Resolved xs, disk w)"
    by (simp add: resolve_proofs_inline)
  from createAlert_log [OF assms r]
  show "svc_log (snd (createAlert env req w)) =
          svc_log w @ [CreateAlertCall (alertData_of req xs) (citizenId_of req)]"
    and "disk (snd (createAlert env req w)) = disk w"
    by simp_all
  show "proofs (alertData_of req xs) = xs"
    by (simp add: alertData_of_def)
next
  assume h: "(files req = None \<or> files req = Some [])
              \<and> (\<not> isArray (field (body req) ''proofs'')
                   \<or> elems (field (body req) ''proofs'') = [])"
  then have r: "resolve_proofs (uploadService env) req (disk w) = (Resolved [], disk w)"
    by (simp add: resolve_proofs_none)
  from createAlert_log [OF assms r]
  show "svc_log (snd (createAlert env req w)) =
          svc_log w @ [CreateAlertCall (alertData_of req []) (citizenId_of req)]"
    and "disk (snd (createAlert env req w)) = disk w"
    by simp_all
  show "proofs (alertData_of req []) = []"
    by (simp add: alertData_of_def)
qed

theorem createAlert_proof_source_precedence_witness:
  "files sample_both_request = Some [sample_video]
   \<and> field (body sample_both_request) ''proofs'' =
       JArr [JObj [(''type'', JStr ''photo''), (''url'', JStr ''/uploads/photos/earlier.jpg'')]]
   \<and> svc_log (snd (createAlert sample_env sample_both_request sample_world)) =
       [CreateAlertCall
          (alertData_of sample_both_request
             [JObj [(''type'', JStr ''video''), (''url'', JStr ''/uploads/videos/clip.mp4''),
                    (''thumbnail'', JNull), (''size'', JNum (Fin 5000))]])
          (JStr ''citizen-1'')]
   \<and> createAlert sample_env (sample_both_request\<lparr>body := body sample_request\<rparr>)
        sample_world
      = createAlert sample_env sample_both_request sample_world
   \<and> files sample_inline_request = None
   \<and> svc_log (snd (createAlert sample_env sample_inline_request sample_world)) =
       [CreateAlertCall
          (alertData_of sample_inline_request
             [JObj [(''type'', JStr ''photo''), (''url'', JStr ''/uploads/photos/earlier.jpg'')]])
          (JStr ''citizen-1'')]
   \<and> files sample_request = None
   \<and> field (body sample_request) ''proofs'' = JUndefined
   \<and> svc_log (snd (createAlert sample_env sample_request sample_world)) =
       [CreateAlertCall (alertData_of sample_request []) (JStr ''citizen-1'')]"
proof -
  have cb: "truthy (field (body sample_both_request) ''coordinates'')"
           "isArray (field (body sample_both_request) ''coordinates'')"
           "length (elems (field (body sample_both_request) ''coordinates'')) = 2"
    using sample_inline_coordinates by (simp_all add: sample_both_request_def)
  have ci: "truthy (field (body sample_inline_request) ''coordinates'')"
           "isArray (field (body sample_inline_request) ''coordinates'')"
           "length (elems (field (body sample_inline_request) ''coordinates'')) = 2"
    using sample_inline_coordinates by simp_all
  have cr: "truthy (field (body sample_request) ''coordinates'')"
           "isArray (field (body sample_request) ''coordinates'')"
           "length (elems (field (body sample_request) ''coordinates'')) = 2"
    using sample_request_coordinates by simp_all
  have fb: "files sample_both_request = Some [sample_video]"
    by (simp add: sample_both_request_def)
  have pb: "field (body sample_both_request) ''proofs'' =
       JArr [JObj [(''type'', JStr ''photo''), (''url'', JStr ''/uploads/photos/earlier.jpg'')]]"
    by (simp add: sample_both_request_def sample_inline_request_def get_prop_def)
  have lb: "process_files (uploadService sample_env) (disk sample_world) [sample_video] [] =
        (Resolved [JObj [(''type'', JStr ''video''), (''url'', JStr ''/uploads/videos/clip.mp4''),
                         (''thumbnail'', JNull), (''size'', JNum (Fin 5000))]],
         disk sample_world)"
    by (simp add: sample_env_def sample_video_processed proof_json_def)
  have fi: "files sample_inline_request = None"
    by (simp add: sample_inline_request_def sample_request_def)
  have pi: "field (body sample_inline_request) ''proofs'' =
       JArr [JObj [(''type'', JStr ''photo''), (''url'', JStr ''/uploads/photos/earlier.jpg'')]]"
    by (simp add: sample_inline_request_def get_prop_def)
  have fr: "files sample_request = None"
    by (simp add: sample_request_def)
  have pr: "field (body sample_request) ''proofs'' = JUndefined"
    by (simp add: sample_request_def get_prop_def)
  have cid: "citizenId_of sample_both_request = JStr ''citizen-1''"
            "citizenId_of sample_inline_request = JStr ''citizen-1''"
            "citizenId_of sample_request = JStr ''citizen-1''"
    by (simp_all add: citizenId_of_def sample_both_request_def sample_inline_request_def
        sample_request_def get_prop_def)
  have lg: "svc_log sample_world = []"
    by (simp add: sample_world_def)
  note a = createAlert_proof_source_precedence [OF cb, of sample_env sample_world]
  note b = createAlert_proof_source_precedence [OF ci, of sample_env sample_world]
  note c = createAlert_proof_source_precedence [OF cr, of sample_env sample_world]
  from a fb lb cid lg
  have 1: "svc_log (snd (createAlert sample_env sample_both_request sample_world)) =
       [CreateAlertCall
          (alertData_of sample_both_request
             [JObj [(''type'', JStr ''video''), (''url'', JStr ''/uploads/videos/clip.mp4''),
                    (''thumbnail'', JNull), (''size'', JNum (Fin 5000))]])
          (JStr ''citizen-1'')]"
    by simp
  have "\<forall>k. k \<noteq> ''proofs''
            \<longrightarrow> field (body sample_request) k = field (body sample_both_request) k"
    by (simp add: sample_both_request_def sample_inline_request_def sample_request_def)
  with fb have "files sample_both_request = Some [sample_video] \<and> [sample_video] \<noteq> []
        \<and> (\<forall>k. k \<noteq> ''proofs''
              \<longrightarrow> field (body sample_request) k = field (body sample_both_request) k)"
    by simp
  from a [THEN conjunct2, THEN conjunct1, rule_format, OF this]
  have 2: "createAlert sample_env (sample_both_request\<lparr>body := body sample_request\<rparr>)
        sample_world
      = createAlert sample_env sample_both_request sample_world" .
  from b fi pi cid lg
  have 3: "svc_log (snd (createAlert sample_env sample_inline_request sample_world)) =
       [CreateAlertCall
          (alertData_of sample_inline_request
             [JObj [(''type'', JStr ''photo''), (''url'', JStr ''/uploads/photos/earlier.jpg'')]])
          (JStr ''citizen-1'')]"
    by simp
  from c fr pr cid lg
  have 4: "svc_log (snd (createAlert sample_env sample_request sample_world)) =
       [CreateAlertCall (alertData_of sample_request []) (JStr ''citizen-1'')]"
    by simp
  from 1 2 3 4 fb pb fi fr pr show ?thesis by simp
qed

text \<open>
  C9. The creation is meant to answer 400, without invoking the persistence operation,
  whenever the processing of an uploaded file fails. It does so when \<^verbatim>\<open>processFile\<close>
  rejects, as it does for an audio file that is no longer on disk (\<^verbatim>\<open>processAudio\<close>
  reads \<^verbatim>\<open>fs.statSync\<close> inside its \<^verbatim>\<open>try\<close> block). For a video file in the same state
  the handler of ffmpeg's event reads \<^verbatim>\<open>fs.statSync\<close> outside the \<^verbatim>\<open>try\<close> block of
  \<^verbatim>\<open>processVideo\<close>: the exception escapes, the promise is never settled, and the creation
  sends no response at all. The persistence operation is not invoked in either case.
\<close>

theorem createAlert_missing_video_never_answers:
  "disk sample_world (path sample_gone_video) = None
   \<and> processFile (uploadService sample_env) (disk sample_world) sample_gone_video
       = (Unsettled, disk sample_world)
   \<and> createAlert sample_env sample_gone_video_request sample_world = (None, sample_world)
   \<and> processFile (uploadService sample_env) (disk sample_world) sample_gone_audio
       = (Rejected (Error ''ENOENT: no such file or directory, stat''), disk sample_world)
   \<and> createAlert sample_env sample_gone_audio_request sample_world =
       (Some \<lparr>status = 400, success = False,
              message = Some ''ENOENT: no such file or directory, stat'', data = None\<rparr>,
        sample_world)"
proof -
  have d: "disk sample_world (path sample_gone_video) = None"
    by (simp add: sample_world_def sample_gone_video_def)
  have v: "processFile (uploadService sample_env) (disk sample_world) sample_gone_video
           = (Unsettled, disk sample_world)"
    by (simp add: processFile_def processVideo_def startsWith_def sample_gone_video_def
        sample_env_def sample_uploads_def sample_world_def statSync_size_def)
  have a: "processFile (uploadService sample_env) (disk sample_world) sample_gone_audio
           = (Rejected (Error ''ENOENT: no such file or directory, stat''), disk sample_world)"
    by (simp add: processFile_def processAudio_def startsWith_def sample_gone_audio_def
        sample_env_def sample_world_def statSync_size_def)
  have c: "truthy (field (body req) ''coordinates'')"
          "isArray (field (body req) ''coordinates'')"
          "length (elems (field (body req) ''coordinates'')) = 2"
    if "body req = body sample_request" for req
    using that sample_request_coordinates by simp_all
  have bv: "body sample_gone_video_request = body sample_request"
    by (simp add: sample_gone_video_request_def)
  have ba: "body sample_gone_audio_request = body sample_request"
    by (simp add: sample_gone_audio_request_def)
  have rv: "resolve_proofs (uploadService sample_env) sample_gone_video_request
              (disk sample_world) = (Unsettled, disk sample_world)"
    using v by (simp add: resolve_proofs_def sample_gone_video_request_def)
  have ra: "resolve_proofs (uploadService sample_env) sample_gone_audio_request
              (disk sample_world)
            = (Rejected (Error ''ENOENT: no such file or directory, stat''), disk sample_world)"
    using a by (simp add: resolve_proofs_def sample_gone_audio_request_def)
  from createAlert_unsettled [OF c [OF bv] rv]
  have 1: "createAlert sample_env sample_gone_video_request sample_world = (None, sample_world)"
    by simp
  from createAlert_rejected [OF c [OF ba] ra]
  have 2: "createAlert sample_env sample_gone_audio_request sample_world =
       (Some \<lparr>status = 400, success = False,
              message = Some ''ENOENT: no such file or directory, stat'', data = None\<rparr>,
        sample_world)"
    by (simp add: error_response_def)
  from d v 1 a 2 show ?thesis by simp
qed

theorem createAlert_missing_video_never_answers_witness:
  "fst (createAlert sample_env sample_gone_video_request sample_world) = None
   \<and> svc_log (snd (createAlert sample_env sample_gone_video_request sample_world))
       = svc_log sample_world"
  using createAlert_missing_video_never_answers by simp

text \<open>
  C4. A video whose frame extraction fails (ffmpeg raises its \<^verbatim>\<open>error\<close> event) does not
  make \<^verbatim>\<open>processFile\<close> fail: for a video file that is on disk, \<^verbatim>\<open>processFile\<close> resolves
  with the proof of type \<^verbatim>\<open>video\<close>, the url of the primary asset, its size and a
  \<^verbatim>\<open>null\<close> thumbnail, and leaves the disk as it was. A creation request with valid
  coordinates that carries this file, wherever it stands among the uploaded files and
  the others being processed, hands a proof list that contains this degraded proof to
  the persistence operation, and answers 201 with the stored alert whenever that
  operation succeeds.
\<close>

theorem processFile_video_thumbnail_failure_degrades:
  assumes video: "startsWith (mimetype file) ''video/''"
      and failed: "ffmpeg_screenshots (uploadService env) d (path file)
                     (uploads_root (uploadService env) @ ''/thumbnails'')
                     (''thumb_'' @ basename (path file) @ ''.jpg'') = FfError err"
      and stored: "d (path file) = Some node"
      and degraded: "degraded =
                       JObj [(''type'', JStr ''video''),
                             (''url'', JStr (''/uploads/videos/'' @ basename (path file))),
                             (''thumbnail'', JNull),
                             (''size'', JNum (Fin (real (node_size node))))]"
  shows "processFile (uploadService env) d file =
           (Resolved \<lparr>ptype = ''video'', url = ''/uploads/videos/'' @ basename (path file),
                      thumbnail = None, psize = node_size node\<rparr>, d)
         \<and> (\<forall>req w before after ps qs d2.
               files req = Some (before @ file # after)
               \<and> process_files (uploadService env) (disk w) before [] = (Resolved ps, d)
               \<and> process_files (uploadService env) d after (ps @ [degraded]) = (Resolved qs, d2)
               \<and> truthy (field (body req) ''coordinates'')
               \<and> isArray (field (body req) ''coordinates'')
               \<and> length (elems (field (body req) ''coordinates'')) = 2
               \<longrightarrow> degraded \<in> set qs
                   \<and> svc_log (snd (createAlert env req w)) =
                       svc_log w @ [CreateAlertCall (alertData_of req qs) (citizenId_of req)]
                   \<and> (\<forall>alert st.
                         svc_createAlert (alertService env) (alertData_of req qs)
                           (citizenId_of req) (store w) = (Inr alert, st)
                         \<longrightarrow> fst (createAlert env req w) =
                               Some \<lparr>status = 201, success = True,
                                     message = Some msg_alert_created, data = Some alert\<rparr>))"
proof -
  let ?p = "\<lparr>ptype = ''video'', url = ''/uploads/videos/'' @ basename (path file),
             thumbnail = None, psize = node_size node\<rparr>"
  have pf: "processFile (uploadService env) d file = (Resolved ?p, d)"
    using processFile_video [OF video] processVideo_error_event [OF failed stored] by simp
  have pj: "proof_json ?p = degraded"
    by (simp add: proof_json_def degraded)
  have "degraded \<in> set qs
        \<and> svc_log (snd (createAlert env req w)) =
            svc_log w @ [CreateAlertCall (alertData_of req qs) (citizenId_of req)]
        \<and> (\<forall>alert st.
              svc_createAlert (alertService env) (alertData_of req qs) (citizenId_of req)
                (store w) = (Inr alert, st)
              \<longrightarrow> fst (createAlert env req w) =
                    Some \<lparr>status = 201, success = True,
                          message = Some msg_alert_created, data = Some alert\<rparr>)"
    if h: "files req = Some (before @ file # after)"
       "process_files (uploadService env) (disk w) before [] = (Resolved ps, d)"
       "process_files (uploadService env) d after (ps @ [degraded]) = (Resolved qs, d2)"
       "truthy (field (body req) ''coordinates'')"
       "isArray (field (body req) ''coordinates'')"
       "length (elems (field (body req) ''coordinates'')) = 2"
    for req w before after ps qs d2
  proof -
    have "process_files (uploadService env) (disk w) (before @ file # after) []
          = process_files (uploadService env) d (file # after) ps"
      using process_files_append [OF h(2)] .
    also have "\<dots> = (Resolved qs, d2)"
      using pf pj h(3) by simp
    finally have r: "resolve_proofs (uploadService env) req (disk w) = (Resolved qs, d2)"
      using h(1) by (simp add: resolve_proofs_def)
    from process_files_results [OF h(3)] have m: "degraded \<in> set qs"
      by auto
    from createAlert_resolved [OF h(4) h(5) h(6) r] m show ?thesis
      by (auto split: prod.splits sum.splits)
  qed
  with pf show ?thesis by blast
qed

theorem processFile_video_thumbnail_failure_degrades_witness:
  "startsWith (mimetype sample_video) ''video/''
   \<and> ffmpeg_screenshots (uploadService sample_env) (disk sample_world) (path sample_video)
        (uploads_root (uploadService sample_env) @ ''/thumbnails'')
        (''thumb_'' @ basename (path sample_video) @ ''.jpg'')
      = FfError (Error ''ffmpeg exited with code 1'')
   \<and> disk sample_world (path sample_video) = Some (RegularFile 5000)
   \<and> processFile (uploadService sample_env) (disk sample_world) sample_video =
       (Resolved \<lparr>ptype = ''video'', url = ''/uploads/videos/clip.mp4'',
                  thumbnail = None, psize = 5000\<rparr>, disk sample_world)
   \<and> files sample_video_request = Some [sample_video]
   \<and> svc_log (snd (createAlert sample_env sample_video_request sample_world)) =
       [CreateAlertCall
          (alertData_of sample_video_request
             [JObj [(''type'', JStr ''video''), (''url'', JStr ''/uploads/videos/clip.mp4''),
                    (''thumbnail'', JNull), (''size'', JNum (Fin 5000))]])
          (citizenId_of sample_video_request)]
   \<and> (\<exists>alert. fst (createAlert sample_env sample_video_request sample_world) =
          Some \<lparr>status = 201, success = True, message = Some msg_alert_created,
                data = Some alert\<rparr>)"
proof -
  let ?j = "JObj [(''type'', JStr ''video''),
                  (''url'', JStr (''/uploads/videos/'' @ basename (path sample_video))),
                  (''thumbnail'', JNull),
                  (''size'', JNum (Fin (real (node_size (RegularFile 5000)))))]"
  have h1: "startsWith (mimetype sample_video) ''video/''"
    by (simp add: sample_video_def startsWith_def)
  have h2: "ffmpeg_screenshots (uploadService sample_env) (disk sample_world)
              (path sample_video)
              (uploads_root (uploadService sample_env) @ ''/thumbnails'')
              (''thumb_'' @ basename (path sample_video) @ ''.jpg'')
            = FfError (Error ''ffmpeg exited with code 1'')"
    by (simp add: sample_env_def sample_uploads_def)
  have h3: "disk sample_world (path sample_video) = Some (RegularFile 5000)"
    by (simp add: sample_world_def sample_video_def)
  have b: "basename (path sample_video) = ''clip.mp4''"
    by (simp add: sample_video_def basename_def)
  have jv: "?j = JObj [(''type'', JStr ''video''), (''url'', JStr ''/uploads/videos/clip.mp4''),
                      (''thumbnail'', JNull), (''size'', JNum (Fin 5000))]"
    using b by simp
  note t = processFile_video_thumbnail_failure_degrades [OF h1 h2 h3 refl]
  note single = t [THEN conjunct1]
  note creation = t [THEN conjunct2, rule_format]
  have f: "files sample_video_request = Some [sample_video]"
    by (simp add: sample_video_request_def)
  have c: "truthy (field (body sample_video_request) ''coordinates'')
        \<and> isArray (field (body sample_video_request) ''coordinates'')
        \<and> length (elems (field (body sample_video_request) ''coordinates'')) = 2"
    using sample_request_coordinates by (simp add: sample_video_request_def)
  have pre: "files sample_video_request = Some ([] @ sample_video # [])
        \<and> process_files (uploadService sample_env) (disk sample_world) [] []
            = (Resolved [], disk sample_world)
        \<and> process_files (uploadService sample_env) (disk sample_world) [] ([] @ [?j])
            = (Resolved [?j], disk sample_world)
        \<and> truthy (field (body sample_video_request) ''coordinates'')
        \<and> isArray (field (body sample_video_request) ''coordinates'')
        \<and> length (elems (field (body sample_video_request) ''coordinates'')) = 2"
    using f c by simp
  note inst = creation [OF pre]
  have lg: "svc_log sample_world = []"
    by (simp add: sample_world_def)
  from inst lg jv
  have 1: "svc_log (snd (createAlert sample_env sample_video_request sample_world)) =
       [CreateAlertCall
          (alertData_of sample_video_request
             [JObj [(''type'', JStr ''video''), (''url'', JStr ''/uploads/videos/clip.mp4''),
                    (''thumbnail'', JNull), (''size'', JNum (Fin 5000))]])
          (citizenId_of sample_video_request)]"
    by simp
  have "\<exists>alert st.
          svc_createAlert (alertService sample_env) (alertData_of sample_video_request [?j])
            (citizenId_of sample_video_request) (store sample_world) = (Inr alert, st)"
    by (simp add: sample_env_def sample_service_def spec_createAlert_def alertData_of_def
        sample_video_request_def sample_request_def get_prop_def paris_def Let_def)
  with inst
  have 2: "\<exists>alert. fst (createAlert sample_env sample_video_request sample_world) =
          Some \<lparr>status = 201, success = True, message = Some msg_alert_created,
                data = Some alert\<rparr>"
    by blast
  from single b have 3: "processFile (uploadService sample_env) (disk sample_world) sample_video =
       (Resolved \<lparr>ptype = ''video'', url = ''/uploads/videos/clip.mp4'',
                  thumbnail = None, psize = 5000\<rparr>, disk sample_world)"
    by simp
  from h1 h2 h3 3 f 1 2 show ?thesis by blast
qed

text \<open>
  C7 (amended). A status update whose body is defined and whose \<^verbatim>\<open>x-service-key\<close>
  header is absent, or differs from the configured secret, is answered 401 whatever the
  body holds: the key is tested before \<^verbatim>\<open>alertId\<close> and \<^verbatim>\<open>status\<close> are, so the answer
  is 401, not 400, also when those fields are missing. When \<^verbatim>\<open>req.body\<close> is
  \<^verbatim>\<open>undefined\<close> or \<^verbatim>\<open>null\<close>, the destructuring that opens the \<^verbatim>\<open>try\<close> block throws
  before the key is tested, and the \<^verbatim>\<open>catch\<close> block answers 400. In both cases the
  alert service is not invoked and nothing changes.
\<close>

theorem updateAlertStatus_wrong_key_unauthorized:
  assumes "headers req ''x-service-key'' = None
           \<or> headers req ''x-service-key'' \<noteq> SERVICE_API_KEY env"
  shows "(\<not> nullish (body req)
            \<longrightarrow> updateAlertStatus env req w =
                  (Some \<lparr>status = 401, success = False,
                         message = Some msg_auth_required, data = None\<rparr>, w))
         \<and> (nullish (body req)
            \<longrightarrow> updateAlertStatus env req w =
                  (Some \<lparr>status = 400, success = False,
                         message =
                           Some (error_message (destructure_error ''alertId'' (body req))),
                         data = None\<rparr>, w))
         \<and> snd (updateAlertStatus env req w) = w"
proof (cases "nullish (body req)")
  case True
  then show ?thesis
    by (simp add: updateAlertStatus_nullish_body error_response_def destructure_error_def)
next
  case False
  from updateAlertStatus_rejected_key [OF False assms] False show ?thesis
    by simp
qed

theorem updateAlertStatus_wrong_key_unauthorized_witness:
  "headers sample_wrong_key_request ''x-service-key'' \<noteq> SERVICE_API_KEY sample_env
   \<and> \<not> nullish (body sample_wrong_key_request)
   \<and> updateAlertStatus sample_env sample_wrong_key_request sample_world =
       (Some \<lparr>status = 401, success = False,
              message = Some msg_auth_required, data = None\<rparr>, sample_world)
   \<and> updateAlertStatus sample_env
        (sample_wrong_key_request\<lparr>body := JObj []\<rparr>) sample_world =
       (Some \<lparr>status = 401, success = False,
              message = Some msg_auth_required, data = None\<rparr>, sample_world)"
proof -
  have h: "headers sample_wrong_key_request ''x-service-key'' \<noteq> SERVICE_API_KEY sample_env"
    by (simp add: sample_wrong_key_request_def sample_env_def)
  then have k: "headers sample_wrong_key_request ''x-service-key'' = None
             \<or> headers sample_wrong_key_request ''x-service-key'' \<noteq> SERVICE_API_KEY sample_env"
    by blast
  have h': "headers (sample_wrong_key_request\<lparr>body := JObj []\<rparr>) ''x-service-key'' = None
             \<or> headers (sample_wrong_key_request\<lparr>body := JObj []\<rparr>) ''x-service-key''
                \<noteq> SERVICE_API_KEY sample_env"
    using h by simp
  have b: "\<not> nullish (body sample_wrong_key_request)"
    by (simp add: sample_wrong_key_request_def)
  have b': "\<not> nullish (body (sample_wrong_key_request\<lparr>body := JObj []\<rparr>))"
    by simp
  note t = updateAlertStatus_wrong_key_unauthorized
  from t [OF k, of sample_world, THEN conjunct1, rule_format, OF b]
    t [OF h', of sample_world, THEN conjunct1, rule_format, OF b'] h b
  show ?thesis by blast
qed

text \<open>
  The claim as stated fails for a request without a body: with a wrong key and
  \<^verbatim>\<open>req.body\<close> undefined the answer is 400, not 401.
\<close>

theorem updateAlertStatus_undefined_body_answers_400:
  "headers sample_no_body_request ''x-service-key'' = Some ''guess''
   \<and> SERVICE_API_KEY sample_env = Some ''bolle-inter-service-secure-key-2025''
   \<and> body sample_no_body_request = JUndefined
   \<and> status (the (fst (updateAlertStatus sample_env sample_no_body_request sample_world)))
       = 400
   \<and> updateAlertStatus sample_env sample_no_body_request sample_world =
       (Some \<lparr>status = 400, success = False,
              message =
                Some (''Cannot destructure property '' @ [CHR 0x27] @ ''alertId'' @ [CHR 0x27]
                      @ '' of '' @ [CHR 0x27] @ ''req.body'' @ [CHR 0x27]
                      @ '' as it is undefined.''),
              data = None\<rparr>, sample_world)"
  by (simp add: updateAlertStatus_def error_response_def destructure_error_def
      sample_no_body_request_def sample_wrong_key_request_def sample_request_def
      sample_env_def)

text \<open>
  C10 (amended). When \<^verbatim>\<open>SERVICE_API_KEY\<close> is unset, no status update reaches the success
  branch: a request whose body is defined is answered 401, with or without an
  \<^verbatim>\<open>x-service-key\<close> header and whatever its value; a request whose \<^verbatim>\<open>req.body\<close> is
  \<^verbatim>\<open>undefined\<close> or \<^verbatim>\<open>null\<close> is answered 400 by the \<^verbatim>\<open>catch\<close> block, since the
  destructuring throws before the key is tested. The alert service is never invoked and
  nothing changes.
\<close>

theorem updateAlertStatus_fail_closed_unconfigured:
  assumes "SERVICE_API_KEY env = None"
  shows "(\<not> nullish (body req)
            \<longrightarrow> updateAlertStatus env req w =
                  (Some \<lparr>status = 401, success = False,
                         message = Some msg_auth_required, data = None\<rparr>, w))
         \<and> (nullish (body req)
            \<longrightarrow> updateAlertStatus env req w =
                  (Some \<lparr>status = 400, success = False,
                         message =
                           Some (error_message (destructure_error ''alertId'' (body req))),
                         data = None\<rparr>, w))
         \<and> snd (updateAlertStatus env req w) = w
         \<and> (\<exists>r. fst (updateAlertStatus env req w) = Some r \<and> success r = False)"
proof (cases "nullish (body req)")
  case True
  then show ?thesis
    by (simp add: updateAlertStatus_nullish_body error_response_def destructure_error_def)
next
  case False
  have "headers req ''x-service-key'' = None
        \<or> headers req ''x-service-key'' \<noteq> SERVICE_API_KEY env"
    using assms by (cases "headers req ''x-service-key''") simp_all
  from updateAlertStatus_rejected_key [OF False this] False show ?thesis
    by simp
qed

theorem updateAlertStatus_fail_closed_unconfigured_witness:
  "SERVICE_API_KEY (sample_env\<lparr>SERVICE_API_KEY := None\<rparr>) = None
   \<and> \<not> nullish (body sample_wrong_key_request)
   \<and> updateAlertStatus (sample_env\<lparr>SERVICE_API_KEY := None\<rparr>) sample_wrong_key_request
        sample_world =
       (Some \<lparr>status = 401, success = False,
              message = Some msg_auth_required, data = None\<rparr>, sample_world)
   \<and> updateAlertStatus (sample_env\<lparr>SERVICE_API_KEY := None\<rparr>)
        (sample_wrong_key_request\<lparr>headers := Map.empty\<rparr>) sample_world =
       (Some \<lparr>status = 401, success = False,
              message = Some msg_auth_required, data = None\<rparr>, sample_world)"
proof -
  have h: "SERVICE_API_KEY (sample_env\<lparr>SERVICE_API_KEY := None\<rparr>) = None"
    by simp
  have b: "\<not> nullish (body sample_wrong_key_request)"
    by (simp add: sample_wrong_key_request_def)
  have b': "\<not> nullish (body (sample_wrong_key_request\<lparr>headers := Map.empty\<rparr>))"
    using b by simp
  note t = updateAlertStatus_fail_closed_unconfigured [OF h]
  from t [of sample_wrong_key_request sample_world, THEN conjunct1, rule_format, OF b]
    t [of "sample_wrong_key_request\<lparr>headers := Map.empty\<rparr>" sample_world,
       THEN conjunct1, rule_format, OF b'] h b
  show ?thesis by blast
qed

text \<open>
  The claim as stated fails for a request whose body is \<^verbatim>\<open>null\<close>: with the secret unset
  the answer is 400, not 401.
\<close>

theorem updateAlertStatus_unconfigured_null_body_answers_400:
  "SERVICE_API_KEY (sample_env\<lparr>SERVICE_API_KEY := None\<rparr>) = None
   \<and> body sample_null_body_request = JNull
   \<and> status (the (fst (updateAlertStatus (sample_env\<lparr>SERVICE_API_KEY := None\<rparr>)
                          sample_null_body_request sample_world)))
       = 400
   \<and> updateAlertStatus (sample_env\<lparr>SERVICE_API_KEY := None\<rparr>) sample_null_body_request
        sample_world =
       (Some \<lparr>status = 400, success = False,
              message =
                Some (''Cannot destructure property '' @ [CHR 0x27] @ ''alertId'' @ [CHR 0x27]
                      @ '' of '' @ [CHR 0x27] @ ''req.body'' @ [CHR 0x27]
                      @ '' as it is null.''),
              data = None\<rparr>, sample_world)"
  by (simp add: updateAlertStatus_def error_response_def destructure_error_def
      sample_null_body_request_def sample_wrong_key_request_def sample_request_def
      sample_env_def)

text \<open>
  C2 (amended). A creation request whose \<^verbatim>\<open>coordinates\<close> field is absent (also when the
  whole body is), is not an array, or is an array of a length other than two is answered
  400, and nothing else happens: the persistence operation is not invoked and the world
  is unchanged. The controller never looks at the elements: any two-element array passes
  its test and is handed to the persistence operation as it is, numbers or not.
\<close>

theorem createAlert_rejects_malformed_coordinates:
  "(nullish (body req)
      \<longrightarrow> createAlert env req w =
            (Some \<lparr>status = 400, success = False,
                   message = Some (error_message (destructure_error ''serviceId'' (body req))),
                   data = None\<rparr>, w))
   \<and> (\<not> nullish (body req) \<and> field (body req) ''coordinates'' = JUndefined
      \<longrightarrow> createAlert env req w =
            (Some \<lparr>status = 400, success = False,
                   message = Some msg_coordinates_required, data = None\<rparr>, w))
   \<and> (\<not> nullish (body req) \<and> \<not> isArray (field (body req) ''coordinates'')
      \<longrightarrow> createAlert env req w =
            (Some \<lparr>status = 400, success = False,
                   message = Some msg_coordinates_required, data = None\<rparr>, w))
   \<and> (\<forall>xs. field (body req) ''coordinates'' = JArr xs \<and> length xs \<noteq> 2
      \<longrightarrow> createAlert env req w =
            (Some \<lparr>status = 400, success = False,
                   message = Some msg_coordinates_required, data = None\<rparr>, w))
   \<and> (\<forall>a b ps d1.
        field (body req) ''coordinates'' = JArr [a, b]
        \<and> resolve_proofs (uploadService env) req (disk w) = (Resolved ps, d1)
      \<longrightarrow> svc_log (snd (createAlert env req w)) =
            svc_log w @ [CreateAlertCall (alertData_of req ps) (citizenId_of req)]
          \<and> coordinates (alertData_of req ps) = JArr [a, b])"
proof (intro conjI allI impI)
  assume "nullish (body req)"
  then show "createAlert env req w =
            (Some \<lparr>status = 400, success = False,
                   message = Some (error_message (destructure_error ''serviceId'' (body req))),
                   data = None\<rparr>, w)"
    by (simp add: createAlert_nullish_body error_response_def destructure_error_def)
next
  assume "\<not> nullish (body req) \<and> field (body req) ''coordinates'' = JUndefined"
  then show "createAlert env req w =
            (Some \<lparr>status = 400, success = False,
                   message = Some msg_coordinates_required, data = None\<rparr>, w)"
    by (simp add: createAlert_bad_coordinates)
next
  assume "\<not> nullish (body req) \<and> \<not> isArray (field (body req) ''coordinates'')"
  then show "createAlert env req w =
            (Some \<lparr>status = 400, success = False,
                   message = Some msg_coordinates_required, data = None\<rparr>, w)"
    by (simp add: createAlert_bad_coordinates)
next
  fix xs
  assume h: "field (body req) ''coordinates'' = JArr xs \<and> length xs \<noteq> 2"
  then have "truthy (field (body req) ''coordinates'')"
    by simp
  then have "\<not> nullish (body req)"
    by (rule truthy_field_not_nullish)
  with h show "createAlert env req w =
            (Some \<lparr>status = 400, success = False,
                   message = Some msg_coordinates_required, data = None\<rparr>, w)"
    by (simp add: createAlert_bad_coordinates)
next
  fix a b ps d1
  assume h: "field (body req) ''coordinates'' = JArr [a, b]
        \<and> resolve_proofs (uploadService env) req (disk w) = (Resolved ps, d1)"
  then have c: "field (body req) ''coordinates'' = JArr [a, b]"
    by simp
  then have "truthy (field (body req) ''coordinates'')"
    "isArray (field (body req) ''coordinates'')"
    "length (elems (field (body req) ''coordinates'')) = 2"
    by simp_all
  from createAlert_log [OF this, of env w ps d1] h
  show "svc_log (snd (createAlert env req w)) =
            svc_log w @ [CreateAlertCall (alertData_of req ps) (citizenId_of req)]"
    by simp
  from c show "coordinates (alertData_of req ps) = JArr [a, b]"
    by (simp add: alertData_of_def)
qed

theorem createAlert_rejects_malformed_coordinates_witness:
  "field (body (sample_request\<lparr>body := JObj []\<rparr>)) ''coordinates'' = JUndefined
   \<and> createAlert sample_env (sample_request\<lparr>body := JObj []\<rparr>) sample_world =
       (Some \<lparr>status = 400, success = False,
              message = Some msg_coordinates_required, data = None\<rparr>, sample_world)
   \<and> createAlert sample_env
        (sample_request\<lparr>body := JObj [(''coordinates'', JStr ''[2.35, 48.85]'')]\<rparr>)
        sample_world =
       (Some \<lparr>status = 400, success = False,
              message = Some msg_coordinates_required, data = None\<rparr>, sample_world)
   \<and> createAlert sample_env
        (sample_request
           \<lparr>body := JObj [(''coordinates'', JArr [JNum (Fin 1), JNum (Fin 2), JNum (Fin 3)])]\<rparr>)
        sample_world =
       (Some \<lparr>status = 400, success = False,
              message = Some msg_coordinates_required, data = None\<rparr>, sample_world)
   \<and> createAlert sample_env
        (sample_request\<lparr>body := JObj [(''coordinates'', JArr [JNum (Fin 1)])]\<rparr>)
        sample_world =
       (Some \<lparr>status = 400, success = False,
              message = Some msg_coordinates_required, data = None\<rparr>, sample_world)
   \<and> status (the (fst (createAlert sample_env (sample_request\<lparr>body := JUndefined\<rparr>)
                          sample_world))) = 400
   \<and> snd (createAlert sample_env (sample_request\<lparr>body := JUndefined\<rparr>) sample_world)
       = sample_world"
proof -
  note t = createAlert_rejects_malformed_coordinates
  from t [of "sample_request\<lparr>body := JObj []\<rparr>" sample_env sample_world,
          THEN conjunct2, THEN conjunct1]
  have 1: "createAlert sample_env (sample_request\<lparr>body := JObj []\<rparr>) sample_world =
       (Some \<lparr>status = 400, success = False,
              message = Some msg_coordinates_required, data = None\<rparr>, sample_world)"
    by simp
  from t [of "sample_request\<lparr>body := JObj [(''coordinates'', JStr ''[2.35, 48.85]'')]\<rparr>"
            sample_env sample_world, THEN conjunct2, THEN conjunct2, THEN conjunct1]
  have 2: "createAlert sample_env
        (sample_request\<lparr>body := JObj [(''coordinates'', JStr ''[2.35, 48.85]'')]\<rparr>)
        sample_world =
       (Some \<lparr>status = 400, success = False,
              message = Some msg_coordinates_required, data = None\<rparr>, sample_world)"
    by simp
  from t [of "sample_request
                \<lparr>body := JObj [(''coordinates'', JArr [JNum (Fin 1), JNum (Fin 2), JNum (Fin 3)])]\<rparr>"
            sample_env sample_world,
          THEN conjunct2, THEN conjunct2, THEN conjunct2, THEN conjunct1]
  have 3: "createAlert sample_env
        (sample_request
           \<lparr>body := JObj [(''coordinates'', JArr [JNum (Fin 1), JNum (Fin 2), JNum (Fin 3)])]\<rparr>)
        sample_world =
       (Some \<lparr>status = 400, success = False,
              message = Some msg_coordinates_required, data = None\<rparr>, sample_world)"
    by simp
  from t [of "sample_request\<lparr>body := JObj [(''coordinates'', JArr [JNum (Fin 1)])]\<rparr>"
            sample_env sample_world,
          THEN conjunct2, THEN conjunct2, THEN conjunct2, THEN conjunct1]
  have 4: "createAlert sample_env
        (sample_request\<lparr>body := JObj [(''coordinates'', JArr [JNum (Fin 1)])]\<rparr>)
        sample_world =
       (Some \<lparr>status = 400, success = False,
              message = Some msg_coordinates_required, data = None\<rparr>, sample_world)"
    by simp
  from t [of "sample_request\<lparr>body := JUndefined\<rparr>" sample_env sample_world, THEN conjunct1]
  have 5: "status (the (fst (createAlert sample_env (sample_request\<lparr>body := JUndefined\<rparr>)
                          sample_world))) = 400
   \<and> snd (createAlert sample_env (sample_request\<lparr>body := JUndefined\<rparr>) sample_world)
       = sample_world"
    by simp
  from 1 2 3 4 5 show ?thesis by simp
qed

text \<open>
  The claim as stated fails for coordinates that are not coercible to numbers: with
  \<^verbatim>\<open>["abc", "def"]\<close> the controller invokes \<^verbatim>\<open>alertService.createAlert\<close>.
\<close>

theorem createAlert_text_coordinates_reach_service:
  "field (body sample_text_request) ''coordinates'' = JArr [JStr ''abc'', JStr ''def'']
   \<and> svc_log sample_world = []
   \<and> svc_log (snd (createAlert sample_env sample_text_request sample_world)) =
       [CreateAlertCall
          \<lparr>serviceId = JUndefined, category = JUndefined, description = JUndefined,
           coordinates = JArr [JStr ''abc'', JStr ''def''], address = JUndefined,
           isAnonymous = False, proofs = []\<rparr>
          (JStr ''citizen-1'')]"
  by (simp add: createAlert_def resolve_proofs_def invoke_def sample_text_request_def
      sample_request_def sample_world_def sample_env_def sample_service_def
      spec_createAlert_def alertData_of_def citizenId_of_def get_prop_def
      split: prod.splits)

text \<open>
  C3. Against the persistence operation modelled from the specification: for a request
  whose coordinates are a pair of numbers \<open>[lon, lat]\<close> in range, and whose proofs
  are resolved, the creation answers 201 with the stored alert; the controller hands the
  pair on unchanged, longitude first, the alert is appended to the collection, and its
  location is \<^verbatim>\<open>{type: "Point", coordinates: [lon, lat]}\<close>.
\<close>

theorem createAlert_location_round_trip:
  assumes coords: "field (body req) ''coordinates'' = JArr [JNum (Fin lon), JNum (Fin lat)]"
      and lon: "- 180 \<le> lon" "lon \<le> 180"
      and lat: "- 90 \<le> lat" "lat \<le> 90"
      and service: "svc_createAlert (alertService env) = spec_createAlert now"
      and processed: "resolve_proofs (uploadService env) req (disk w) = (Resolved ps, d1)"
  shows "\<exists>alert.
           createAlert env req w =
             (Some \<lparr>status = 201, success = True, message = Some msg_alert_created,
                    data = Some alert\<rparr>,
              w\<lparr>disk := d1, store := store w @ [alert],
                svc_log := svc_log w @
                  [CreateAlertCall (alertData_of req ps) (citizenId_of req)]\<rparr>)
           \<and> coordinates (alertData_of req ps) = JArr [JNum (Fin lon), JNum (Fin lat)]
           \<and> field alert ''location'' =
               JObj [(''type'', JStr ''Point''),
                     (''coordinates'', JArr [JNum (Fin lon), JNum (Fin lat)])]
           \<and> field alert ''status'' = JStr ''pending''"
proof -
  have c: "field (body req) ''coordinates'' = JArr [JNum (Fin lon), JNum (Fin lat)]"
    using coords .
  then have ok: "truthy (field (body req) ''coordinates'')"
    "isArray (field (body req) ''coordinates'')"
    "length (elems (field (body req) ''coordinates'')) = 2"
    by simp_all
  have ad: "coordinates (alertData_of req ps) = JArr [JNum (Fin lon), JNum (Fin lat)]"
    using c by (simp add: alertData_of_def)
  then have "lon_lat (coordinates (alertData_of req ps)) = Some (lon, lat)"
    by simp
  then obtain alert where
    stored: "spec_createAlert now (alertData_of req ps) (citizenId_of req) (store w)
             = (Inr alert, store w @ [alert])"
    and loc: "field alert ''location'' =
               JObj [(''type'', JStr ''Point''),
                     (''coordinates'', JArr [JNum (Fin lon), JNum (Fin lat)])]"
    and st: "field alert ''status'' = JStr ''pending''"
    by (simp add: spec_createAlert_def Let_def)
  from createAlert_resolved [OF ok processed] service stored
  have "createAlert env req w =
             (Some \<lparr>status = 201, success = True, message = Some msg_alert_created,
                    data = Some alert\<rparr>,
              w\<lparr>disk := d1, store := store w @ [alert],
                svc_log := svc_log w @
                  [CreateAlertCall (alertData_of req ps) (citizenId_of req)]\<rparr>)"
    by simp
  with ad loc st show ?thesis by blast
qed

theorem createAlert_location_round_trip_witness:
  "field (body sample_request) ''coordinates'' =
     JArr [JNum (Fin (235 / 100)), JNum (Fin (4885 / 100))]
   \<and> - 180 \<le> (235 / 100 :: real) \<and> (235 / 100 :: real) \<le> 180
   \<and> - 90 \<le> (4885 / 100 :: real) \<and> (4885 / 100 :: real) \<le> 90
   \<and> svc_createAlert (alertService sample_env) = spec_createAlert (JStr ''2025-06-01T12:00:00.000Z'')
   \<and> resolve_proofs (uploadService sample_env) sample_request (disk sample_world)
       = (Resolved [], disk sample_world)
   \<and> (\<exists>alert.
         fst (createAlert sample_env sample_request sample_world) =
             Some \<lparr>status = 201, success = True, message = Some msg_alert_created,
                   data = Some alert\<rparr>
         \<and> store (snd (createAlert sample_env sample_request sample_world)) = [alert]
         \<and> field alert ''location'' =
               JObj [(''type'', JStr ''Point''),
                     (''coordinates'', JArr [JNum (Fin (235 / 100)), JNum (Fin (4885 / 100))])])"
proof -
  have h1: "field (body sample_request) ''coordinates'' =
              JArr [JNum (Fin (235 / 100)), JNum (Fin (4885 / 100))]"
    by (simp add: sample_request_def paris_def)
  have h2: "- 180 \<le> (235 / 100 :: real)" "(235 / 100 :: real) \<le> 180"
    by simp_all
  have h3: "- 90 \<le> (4885 / 100 :: real)" "(4885 / 100 :: real) \<le> 90"
    by simp_all
  have h4: "svc_createAlert (alertService sample_env) =
              spec_createAlert (JStr ''2025-06-01T12:00:00.000Z'')"
    by (simp add: sample_env_def sample_service_def)
  have h5: "resolve_proofs (uploadService sample_env) sample_request (disk sample_world)
              = (Resolved [], disk sample_world)"
    by (simp add: resolve_proofs_def sample_request_def get_prop_def)
  have w0: "store sample_world = []"
    by (simp add: sample_world_def)
  from createAlert_location_round_trip [OF h1 h2 h3 h4 h5]
  obtain alert where
    "createAlert sample_env sample_request sample_world =
             (Some \<lparr>status = 201, success = True, message = Some msg_alert_created,
                    data = Some alert\<rparr>,
              sample_world\<lparr>disk := disk sample_world, store := store sample_world @ [alert],
                svc_log := svc_log sample_world @
                  [CreateAlertCall (alertData_of sample_request []) (citizenId_of sample_request)]\<rparr>)"
    and "field alert ''location'' =
               JObj [(''type'', JStr ''Point''),
                     (''coordinates'', JArr [JNum (Fin (235 / 100)), JNum (Fin (4885 / 100))])]"
    by blast
  with w0 have "fst (createAlert sample_env sample_request sample_world) =
             Some \<lparr>status = 201, success = True, message = Some msg_alert_created,
                   data = Some alert\<rparr>
         \<and> store (snd (createAlert sample_env sample_request sample_world)) = [alert]
         \<and> field alert ''location'' =
               JObj [(''type'', JStr ''Point''),
                     (''coordinates'', JArr [JNum (Fin (235 / 100)), JNum (Fin (4885 / 100))])]"
    by simp
  then have "\<exists>alert.
         fst (createAlert sample_env sample_request sample_world) =
             Some \<lparr>status = 201, success = True, message = Some msg_alert_created,
                   data = Some alert\<rparr>
         \<and> store (snd (createAlert sample_env sample_request sample_world)) = [alert]
         \<and> field alert ''location'' =
               JObj [(''type'', JStr ''Point''),
                     (''coordinates'', JArr [JNum (Fin (235 / 100)), JNum (Fin (4885 / 100))])]"
    by blast
  with h1 h2 h3 h4 h5 show ?thesis by blast
qed

text \<open>
  C8. \<^verbatim>\<open>getAlertsNearby\<close> answers 400 without querying when the \<^verbatim>\<open>longitude\<close> or the
  \<^verbatim>\<open>latitude\<close> parameter is missing (absent, or an empty string: the test is \<^verbatim>\<open>!x\<close>).
  Otherwise it invokes the service once, with the center
  \<^verbatim>\<open>[parseFloat(longitude), parseFloat(latitude)]\<close> in that order, and with the radius
  \<^verbatim>\<open>parseInt(distance)\<close> when a distance is supplied, 5000 when it is not.
\<close>

theorem getAlertsNearby_center_and_radius:
  "(query req ''longitude'' = None \<or> query req ''latitude'' = None
      \<longrightarrow> getAlertsNearby env req w =
            (Some \<lparr>status = 400, success = False,
                   message = Some msg_nearby_required, data = None\<rparr>, w))
   \<and> (\<not> truthy (get_prop (query req) ''longitude'')
       \<or> \<not> truthy (get_prop (query req) ''latitude'')
      \<longrightarrow> getAlertsNearby env req w =
            (Some \<lparr>status = 400, success = False,
                   message = Some msg_nearby_required, data = None\<rparr>, w))
   \<and> (truthy (get_prop (query req) ''longitude'')
       \<and> truthy (get_prop (query req) ''latitude'')
      \<longrightarrow> svc_log (snd (getAlertsNearby env req w)) =
            svc_log w @
            [GetAlertsNearbyCall
               [parseFloat env (get_prop (query req) ''longitude''),
                parseFloat env (get_prop (query req) ''latitude'')]
               (if truthy (get_prop (query req) ''distance'')
                then parseInt env (get_prop (query req) ''distance'')
                else Fin 5000)])
   \<and> (truthy (get_prop (query req) ''longitude'')
       \<and> truthy (get_prop (query req) ''latitude'')
       \<and> query req ''distance'' = None
      \<longrightarrow> svc_log (snd (getAlertsNearby env req w)) =
            svc_log w @
            [GetAlertsNearbyCall
               [parseFloat env (get_prop (query req) ''longitude''),
                parseFloat env (get_prop (query req) ''latitude'')]
               (Fin 5000)])"
  by (auto simp: getAlertsNearby_def Let_def invoke_def get_prop_def
      split: prod.splits sum.splits)

theorem getAlertsNearby_center_and_radius_witness:
  "truthy (get_prop (query sample_nearby_request) ''longitude'')
   \<and> truthy (get_prop (query sample_nearby_request) ''latitude'')
   \<and> query sample_nearby_request ''distance'' = None
   \<and> svc_log (snd (getAlertsNearby sample_env sample_nearby_request sample_world)) =
       [GetAlertsNearbyCall [Fin (235 / 100), Fin (4885 / 100)] (Fin 5000)]
   \<and> svc_log (snd (getAlertsNearby sample_env
        (sample_nearby_request\<lparr>query := (query sample_nearby_request)(''distance'' \<mapsto> JStr ''1000'')\<rparr>)
        sample_world)) =
       [GetAlertsNearbyCall [Fin (235 / 100), Fin (4885 / 100)] (Fin 1000)]
   \<and> getAlertsNearby sample_env
        (sample_nearby_request\<lparr>query := [''latitude'' \<mapsto> JStr ''48.85'']\<rparr>) sample_world =
       (Some \<lparr>status = 400, success = False,
              message = Some msg_nearby_required, data = None\<rparr>, sample_world)"
proof -
  have q: "get_prop (query sample_nearby_request) ''longitude'' = JStr ''2.35''"
          "get_prop (query sample_nearby_request) ''latitude'' = JStr ''48.85''"
          "query sample_nearby_request ''distance'' = None"
    by (simp_all add: sample_nearby_request_def get_prop_def)
  have p: "parseFloat sample_env (JStr ''2.35'') = Fin (235 / 100)"
          "parseFloat sample_env (JStr ''48.85'') = Fin (4885 / 100)"
          "parseInt sample_env (JStr ''1000'') = Fin 1000"
    by (simp_all add: sample_env_def sample_parse_def)
  have l: "svc_log sample_world = []"
    by (simp add: sample_world_def)
  note t = getAlertsNearby_center_and_radius
  from t [of sample_nearby_request sample_env sample_world] q p l
  have 1: "svc_log (snd (getAlertsNearby sample_env sample_nearby_request sample_world)) =
       [GetAlertsNearbyCall [Fin (235 / 100), Fin (4885 / 100)] (Fin 5000)]"
    by (simp add: get_prop_def)
  from t [of "sample_nearby_request\<lparr>query := (query sample_nearby_request)(''distance'' \<mapsto> JStr ''1000'')\<rparr>"
            sample_env sample_world] q p l
  have 2: "svc_log (snd (getAlertsNearby sample_env
        (sample_nearby_request\<lparr>query := (query sample_nearby_request)(''distance'' \<mapsto> JStr ''1000'')\<rparr>)
        sample_world)) =
       [GetAlertsNearbyCall [Fin (235 / 100), Fin (4885 / 100)] (Fin 1000)]"
    by (simp add: get_prop_def)
  from t [of "sample_nearby_request\<lparr>query := [''latitude'' \<mapsto> JStr ''48.85'']\<rparr>"
            sample_env sample_world]
  have 3: "getAlertsNearby sample_env
        (sample_nearby_request\<lparr>query := [''latitude'' \<mapsto> JStr ''48.85'']\<rparr>) sample_world =
       (Some \<lparr>status = 400, success = False,
              message = Some msg_nearby_required, data = None\<rparr>, sample_world)"
    by simp
  from 1 2 3 q show ?thesis by simp
qed

text \<open>
  C5. \<^verbatim>\<open>processFile\<close> looks at nothing but the prefix of the declared MIME type:
  \<^verbatim>\<open>image/\<close> goes to \<^verbatim>\<open>processImage\<close>, \<^verbatim>\<open>video/\<close> to \<^verbatim>\<open>processVideo\<close>, \<^verbatim>\<open>audio/\<close>
  to \<^verbatim>\<open>processAudio\<close>, and any other type is rejected with the error
  \<^verbatim>\<open>Type de fichier non pris en charge\<close>, the disk untouched. Every proof it resolves
  with has the type of its branch (\<^verbatim>\<open>photo\<close>, \<^verbatim>\<open>video\<close>, \<^verbatim>\<open>audio\<close>) and a url in the
  matching folder, which is also the folder \<^verbatim>\<open>deleteFile\<close> would resolve that url into
  (its first matching marker). It does resolve when the file is on disk and the library
  does its work: sharp writes both outputs of a stored image, ffmpeg does not throw on a
  stored video, and a stored audio file needs nothing more.
\<close>

theorem processFile_dispatch_on_mime_prefix:
  "(startsWith (mimetype file) ''image/''
      \<longrightarrow> processFile uenv d file = processImage uenv d file)
   \<and> (startsWith (mimetype file) ''video/''
      \<longrightarrow> processFile uenv d file = processVideo uenv d file)
   \<and> (startsWith (mimetype file) ''audio/''
      \<longrightarrow> processFile uenv d file = processAudio uenv d file)
   \<and> (\<not> startsWith (mimetype file) ''image/''
       \<and> \<not> startsWith (mimetype file) ''video/''
       \<and> \<not> startsWith (mimetype file) ''audio/''
      \<longrightarrow> processFile uenv d file =
            (Rejected (Error ''Type de fichier non pris en charge''), d))
   \<and> (\<forall>p d'.
        processFile uenv d file = (Resolved p, d')
      \<longrightarrow> (startsWith (mimetype file) ''image/''
             \<and> ptype p = ''photo''
             \<and> url p = ''/uploads/photos/'' @ basename (path file)
             \<and> str_includes (url p) ''/photos/'')
          \<or> (startsWith (mimetype file) ''video/''
             \<and> ptype p = ''video''
             \<and> url p = ''/uploads/videos/'' @ basename (path file)
             \<and> \<not> str_includes (url p) ''/photos/''
             \<and> str_includes (url p) ''/videos/'')
          \<or> (startsWith (mimetype file) ''audio/''
             \<and> ptype p = ''audio''
             \<and> url p = ''/uploads/audio/'' @ basename (path file)
             \<and> \<not> str_includes (url p) ''/photos/''
             \<and> \<not> str_includes (url p) ''/videos/''
             \<and> str_includes (url p) ''/audio/''))
   \<and> (startsWith (mimetype file) ''image/''
       \<and> d (path file) = Some (RegularFile n)
       \<and> (\<forall>d0 pipeline output. \<exists>m. sharp_toFile uenv d0 (path file) pipeline output = Inr m)
      \<longrightarrow> (\<exists>p d'. processFile uenv d file = (Resolved p, d')))
   \<and> (startsWith (mimetype file) ''video/''
       \<and> d (path file) = Some node
       \<and> (\<forall>e. ffmpeg_screenshots uenv d (path file) (uploads_root uenv @ ''/thumbnails'')
                  (''thumb_'' @ basename (path file) @ ''.jpg'') \<noteq> FfThrow e)
      \<longrightarrow> (\<exists>p d'. processFile uenv d file = (Resolved p, d')))
   \<and> (startsWith (mimetype file) ''audio/''
       \<and> d (path file) = Some node
      \<longrightarrow> (\<exists>p. processFile uenv d file = (Resolved p, d)))"
proof -
  have shape: "(startsWith (mimetype file) ''image/''
             \<and> ptype p = ''photo''
             \<and> url p = ''/uploads/photos/'' @ basename (path file)
             \<and> str_includes (url p) ''/photos/'')
          \<or> (startsWith (mimetype file) ''video/''
             \<and> ptype p = ''video''
             \<and> url p = ''/uploads/videos/'' @ basename (path file)
             \<and> \<not> str_includes (url p) ''/photos/''
             \<and> str_includes (url p) ''/videos/'')
          \<or> (startsWith (mimetype file) ''audio/''
             \<and> ptype p = ''audio''
             \<and> url p = ''/uploads/audio/'' @ basename (path file)
             \<and> \<not> str_includes (url p) ''/photos/''
             \<and> \<not> str_includes (url p) ''/videos/''
             \<and> str_includes (url p) ''/audio/'')"
    if res: "processFile uenv d file = (Resolved p, d')" for p d'
  proof -
    note b = basename_no_slash [of "path file"]
    consider (image) "startsWith (mimetype file) ''image/''"
      | (video) "startsWith (mimetype file) ''video/''"
      | (audio) "startsWith (mimetype file) ''audio/''"
      using res by (auto simp: processFile_def split: if_splits)
    then show ?thesis
    proof cases
      case image
      with res have "processImage uenv d file = (Resolved p, d')"
        by (simp add: processFile_image)
      from processImage_resolved [OF this] image show ?thesis
        using photo_url_marker [of "basename (path file)"] by simp
    next
      case video
      with res have "processVideo uenv d file = (Resolved p, d')"
        by (simp add: processFile_video)
      from processVideo_resolved [OF this] video show ?thesis
        using video_url_marker [OF b] by simp
    next
      case audio
      with res have "processAudio uenv d file = (Resolved p, d')"
        by (simp add: processFile_audio)
      from processAudio_resolved [OF this] audio show ?thesis
        using audio_url_marker [OF b] by simp
    qed
  qed
  have unsupported: "processFile uenv d file =
            (Rejected (Error ''Type de fichier non pris en charge''), d)"
    if "\<not> startsWith (mimetype file) ''image/''
       \<and> \<not> startsWith (mimetype file) ''video/''
       \<and> \<not> startsWith (mimetype file) ''audio/''"
    using that by (simp add: processFile_def)
  have img: "\<exists>p d'. processFile uenv d file = (Resolved p, d')"
    if "startsWith (mimetype file) ''image/''
       \<and> d (path file) = Some (RegularFile n)
       \<and> (\<forall>d0 pipeline output. \<exists>m. sharp_toFile uenv d0 (path file) pipeline output = Inr m)"
    using that processImage_stored [of d "file" n uenv] by (simp add: processFile_image)
  have vid: "\<exists>p d'. processFile uenv d file = (Resolved p, d')"
    if "startsWith (mimetype file) ''video/''
       \<and> d (path file) = Some node
       \<and> (\<forall>e. ffmpeg_screenshots uenv d (path file) (uploads_root uenv @ ''/thumbnails'')
                  (''thumb_'' @ basename (path file) @ ''.jpg'') \<noteq> FfThrow e)"
    using that processVideo_stored [of d "file" node uenv] by (simp add: processFile_video)
  have aud: "\<exists>p. processFile uenv d file = (Resolved p, d)"
    if "startsWith (mimetype file) ''audio/'' \<and> d (path file) = Some node"
    using that processAudio_stored [of d "file" node uenv] by (simp add: processFile_audio)
  from shape unsupported img vid aud show ?thesis
    by (simp add: processFile_image processFile_video processFile_audio)
qed

theorem processFile_dispatch_on_mime_prefix_witness:
  "startsWith (mimetype sample_image) ''image/''
   \<and> disk sample_world (path sample_image) = Some (RegularFile 9000)
   \<and> (\<exists>p d'. processFile sample_uploads (disk sample_world) sample_image = (Resolved p, d')
          \<and> ptype p = ''photo'' \<and> url p = ''/uploads/photos/pic.png'')
   \<and> processFile sample_uploads (disk sample_world) sample_pdf =
       (Rejected (Error ''Type de fichier non pris en charge''), disk sample_world)"
proof -
  note img = processFile_dispatch_on_mime_prefix
    [of sample_image sample_uploads "disk sample_world" 9000]
  note pdf = processFile_dispatch_on_mime_prefix
    [of sample_pdf sample_uploads "disk sample_world"]
  note img_shape =
    img [THEN conjunct2, THEN conjunct2, THEN conjunct2, THEN conjunct2, THEN conjunct1,
         rule_format]
  note img_resolves =
    img [THEN conjunct2, THEN conjunct2, THEN conjunct2, THEN conjunct2, THEN conjunct2,
         THEN conjunct1, rule_format]
  note pdf_rejected =
    pdf [THEN conjunct2, THEN conjunct2, THEN conjunct2, THEN conjunct1, rule_format]
  have i1: "startsWith (mimetype sample_image) ''image/''"
    by (simp add: sample_image_def startsWith_def)
  have i2: "disk sample_world (path sample_image) = Some (RegularFile 9000)"
    by (simp add: sample_world_def sample_image_def)
  have i3: "\<forall>d0 pipeline output.
              \<exists>m. sharp_toFile sample_uploads d0 (path sample_image) pipeline output = Inr m"
    by (simp add: sample_uploads_def)
  have ib: "basename (path sample_image) = ''pic.png''"
    by (simp add: sample_image_def basename_def)
  from img_resolves [OF conjI [OF i1 conjI [OF i2 i3]]] obtain p d' where
    r: "processFile sample_uploads (disk sample_world) sample_image = (Resolved p, d')"
    by blast
  from img_shape [OF r] i1 video_not_image [of "mimetype sample_image"]
    audio_not_image [of "mimetype sample_image"] ib
  have "ptype p = ''photo'' \<and> url p = ''/uploads/photos/pic.png''"
    by auto
  with r have 1: "\<exists>p d'. processFile sample_uploads (disk sample_world) sample_image
                         = (Resolved p, d')
          \<and> ptype p = ''photo'' \<and> url p = ''/uploads/photos/pic.png''"
    by blast
  have "\<not> startsWith (mimetype sample_pdf) ''image/''
       \<and> \<not> startsWith (mimetype sample_pdf) ''video/''
       \<and> \<not> startsWith (mimetype sample_pdf) ''audio/''"
    by (simp add: sample_pdf_def startsWith_def)
  from pdf_rejected [OF this]
  have 2: "processFile sample_uploads (disk sample_world) sample_pdf =
       (Rejected (Error ''Type de fichier non pris en charge''), disk sample_world)" .
  from 1 2 i1 i2 show ?thesis by blast
qed

text \<open>
  C6 (amended). With \<open>fileName\<close> the basename of the URL: a URL that contains none of
  \<^verbatim>\<open>/photos/\<close>, \<^verbatim>\<open>/videos/\<close>, \<^verbatim>\<open>/audio/\<close> is rejected with the error
  \<^verbatim>\<open>Type de fichier non reconnu\<close>, and the disk is untouched. For a URL that contains
  \<^verbatim>\<open>/photos/\<close> (for one that does not, but contains \<^verbatim>\<open>/videos/\<close>) the thumbnail
  \<^verbatim>\<open>thumb_<fileName>\<close> (\<^verbatim>\<open>thumb_<fileName>.jpg\<close>) is unlinked first when it is present as
  a file, and is gone afterwards. That step is not tolerant of errors: when the
  thumbnail path is a directory, \<^verbatim>\<open>unlinkSync\<close> throws and the whole call is rejected,
  the disk untouched. When the thumbnail step raises nothing and the primary file does
  not exist, the call resolves with \<^verbatim>\<open>false\<close>.
\<close>

theorem deleteFile_markers_and_thumbnails:
  assumes fileName: "fileName = basename fileUrl"
      and photoThumb:
        "photoThumb = uploads_join (uploads_root uenv) ''thumbnails'' (''thumb_'' @ fileName)"
      and videoThumb:
        "videoThumb =
           uploads_join (uploads_root uenv) ''thumbnails'' (''thumb_'' @ fileName @ ''.jpg'')"
  shows
    "(\<not> str_includes fileUrl ''/photos/'' \<and> \<not> str_includes fileUrl ''/videos/''
        \<and> \<not> str_includes fileUrl ''/audio/''
       \<longrightarrow> deleteFile uenv d fileUrl = (Rejected (Error ''Type de fichier non reconnu''), d))
     \<and> (str_includes fileUrl ''/photos/'' \<and> (\<exists>n. d photoThumb = Some (RegularFile n))
       \<longrightarrow> snd (deleteFile uenv d fileUrl) photoThumb = None)
     \<and> (\<not> str_includes fileUrl ''/photos/'' \<and> str_includes fileUrl ''/videos/''
        \<and> (\<exists>n. d videoThumb = Some (RegularFile n))
       \<longrightarrow> snd (deleteFile uenv d fileUrl) videoThumb = None)
     \<and> (str_includes fileUrl ''/photos/'' \<and> (\<exists>n. d photoThumb = Some (Directory n))
       \<longrightarrow> deleteFile uenv d fileUrl =
             (Rejected (Error ''EISDIR: illegal operation on a directory, unlink''), d))
     \<and> (\<not> str_includes fileUrl ''/photos/'' \<and> str_includes fileUrl ''/videos/''
        \<and> (\<exists>n. d videoThumb = Some (Directory n))
       \<longrightarrow> deleteFile uenv d fileUrl =
             (Rejected (Error ''EISDIR: illegal operation on a directory, unlink''), d))
     \<and> (str_includes fileUrl ''/photos/'' \<and> (\<forall>n. d photoThumb \<noteq> Some (Directory n))
        \<and> d (uploads_join (uploads_root uenv) ''photos'' fileName) = None
       \<longrightarrow> fst (deleteFile uenv d fileUrl) = Resolved False)
     \<and> (\<not> str_includes fileUrl ''/photos/'' \<and> str_includes fileUrl ''/videos/''
        \<and> (\<forall>n. d videoThumb \<noteq> Some (Directory n))
        \<and> d (uploads_join (uploads_root uenv) ''videos'' fileName) = None
       \<longrightarrow> fst (deleteFile uenv d fileUrl) = Resolved False)
     \<and> (\<not> str_includes fileUrl ''/photos/'' \<and> \<not> str_includes fileUrl ''/videos/''
        \<and> str_includes fileUrl ''/audio/''
        \<and> d (uploads_join (uploads_root uenv) ''audio'' fileName) = None
       \<longrightarrow> deleteFile uenv d fileUrl = (Resolved False, d))"
proof (intro conjI impI)
  assume "\<not> str_includes fileUrl ''/photos/'' \<and> \<not> str_includes fileUrl ''/videos/''
        \<and> \<not> str_includes fileUrl ''/audio/''"
  then show "deleteFile uenv d fileUrl = (Rejected (Error ''Type de fichier non reconnu''), d)"
    by (simp add: deleteFile_unrecognised)
next
  assume "str_includes fileUrl ''/photos/'' \<and> (\<exists>n. d photoThumb = Some (RegularFile n))"
  then show "snd (deleteFile uenv d fileUrl) photoThumb = None"
    unfolding fileName photoThumb
    by (auto simp: deleteFile_photos Let_def split: option.split fs_node.split)
next
  assume "\<not> str_includes fileUrl ''/photos/'' \<and> str_includes fileUrl ''/videos/''
        \<and> (\<exists>n. d videoThumb = Some (RegularFile n))"
  then show "snd (deleteFile uenv d fileUrl) videoThumb = None"
    unfolding fileName videoThumb
    by (auto simp: deleteFile_videos Let_def split: option.split fs_node.split)
next
  assume "str_includes fileUrl ''/photos/'' \<and> (\<exists>n. d photoThumb = Some (Directory n))"
  then show "deleteFile uenv d fileUrl =
             (Rejected (Error ''EISDIR: illegal operation on a directory, unlink''), d)"
    unfolding fileName photoThumb
    by (auto simp: deleteFile_photos Let_def)
next
  assume "\<not> str_includes fileUrl ''/photos/'' \<and> str_includes fileUrl ''/videos/''
        \<and> (\<exists>n. d videoThumb = Some (Directory n))"
  then show "deleteFile uenv d fileUrl =
             (Rejected (Error ''EISDIR: illegal operation on a directory, unlink''), d)"
    unfolding fileName videoThumb
    by (auto simp: deleteFile_videos Let_def)
next
  assume "str_includes fileUrl ''/photos/'' \<and> (\<forall>n. d photoThumb \<noteq> Some (Directory n))
        \<and> d (uploads_join (uploads_root uenv) ''photos'' fileName) = None"
  then show "fst (deleteFile uenv d fileUrl) = Resolved False"
    unfolding fileName photoThumb
    by (auto simp: deleteFile_photos Let_def split: option.split fs_node.split)
next
  assume "\<not> str_includes fileUrl ''/photos/'' \<and> str_includes fileUrl ''/videos/''
        \<and> (\<forall>n. d videoThumb \<noteq> Some (Directory n))
        \<and> d (uploads_join (uploads_root uenv) ''videos'' fileName) = None"
  then show "fst (deleteFile uenv d fileUrl) = Resolved False"
    unfolding fileName videoThumb
    by (auto simp: deleteFile_videos Let_def split: option.split fs_node.split)
next
  assume "\<not> str_includes fileUrl ''/photos/'' \<and> \<not> str_includes fileUrl ''/videos/''
        \<and> str_includes fileUrl ''/audio/''
        \<and> d (uploads_join (uploads_root uenv) ''audio'' fileName) = None"
  then show "deleteFile uenv d fileUrl = (Resolved False, d)"
    unfolding fileName
    by (simp add: deleteFile_audio Let_def)
qed

theorem deleteFile_markers_and_thumbnails_witness:
  "''pic.png'' = basename ''/uploads/photos/pic.png''
   \<and> ''/srv/uploads/thumbnails/thumb_pic.png'' =
       uploads_join (uploads_root sample_uploads) ''thumbnails'' (''thumb_'' @ ''pic.png'')
   \<and> str_includes ''/uploads/photos/pic.png'' ''/photos/''
   \<and> sample_disk_photo ''/srv/uploads/thumbnails/thumb_pic.png'' = Some (RegularFile 300)
   \<and> snd (deleteFile sample_uploads sample_disk_photo ''/uploads/photos/pic.png'')
         ''/srv/uploads/thumbnails/thumb_pic.png'' = None
   \<and> uploads_join (uploads_root sample_uploads) ''photos'' ''pic.png''
       = ''/srv/uploads/photos/pic.png''
   \<and> fst (deleteFile sample_uploads Map.empty ''/uploads/photos/pic.png'') = Resolved False
   \<and> deleteFile sample_uploads sample_disk_photo ''https://example.org/pic.png'' =
       (Rejected (Error ''Type de fichier non reconnu''), sample_disk_photo)"
proof -
  have n: "''pic.png'' = basename ''/uploads/photos/pic.png''"
    by (simp add: basename_def)
  have pt: "''/srv/uploads/thumbnails/thumb_pic.png'' =
       uploads_join (uploads_root sample_uploads) ''thumbnails'' (''thumb_'' @ ''pic.png'')"
    by (simp add: uploads_join_def sample_uploads_def)
  have vt: "''/srv/uploads/thumbnails/thumb_pic.png.jpg'' =
       uploads_join (uploads_root sample_uploads) ''thumbnails''
         (''thumb_'' @ ''pic.png'' @ ''.jpg'')"
    by (simp add: uploads_join_def sample_uploads_def)
  have pp: "uploads_join (uploads_root sample_uploads) ''photos'' ''pic.png''
       = ''/srv/uploads/photos/pic.png''"
    by (simp add: uploads_join_def sample_uploads_def)
  have m: "str_includes ''/uploads/photos/pic.png'' ''/photos/''"
    by simp
  have t1: "sample_disk_photo ''/srv/uploads/thumbnails/thumb_pic.png''
            = Some (RegularFile 300)"
    by (simp add: sample_disk_photo_def)
  note a = deleteFile_markers_and_thumbnails
    [OF n pt vt, of sample_disk_photo,
     THEN conjunct2, THEN conjunct1, rule_format]
  note b = deleteFile_markers_and_thumbnails
    [OF n pt vt, of Map.empty,
     THEN conjunct2, THEN conjunct2, THEN conjunct2, THEN conjunct2, THEN conjunct2,
     THEN conjunct1, rule_format]
  have n2: "''pic.png'' = basename ''https://example.org/pic.png''"
    by (simp add: basename_def)
  note c = deleteFile_markers_and_thumbnails
    [OF n2 pt vt, of sample_disk_photo, THEN conjunct1, rule_format]
  from t1 have "\<exists>n. sample_disk_photo ''/srv/uploads/thumbnails/thumb_pic.png''
                  = Some (RegularFile n)"
    by blast
  with m have 1: "snd (deleteFile sample_uploads sample_disk_photo ''/uploads/photos/pic.png'')
         ''/srv/uploads/thumbnails/thumb_pic.png'' = None"
    by (intro a conjI)
  have "str_includes ''/uploads/photos/pic.png'' ''/photos/''
        \<and> (\<forall>n. (Map.empty :: filesystem) ''/srv/uploads/thumbnails/thumb_pic.png''
               \<noteq> Some (Directory n))
        \<and> (Map.empty :: filesystem)
             (uploads_join (uploads_root sample_uploads) ''photos'' ''pic.png'') = None"
    by simp
  from b [OF this]
  have 2: "fst (deleteFile sample_uploads Map.empty ''/uploads/photos/pic.png'')
           = Resolved False" .
  have "\<not> str_includes ''https://example.org/pic.png'' ''/photos/''
        \<and> \<not> str_includes ''https://example.org/pic.png'' ''/videos/''
        \<and> \<not> str_includes ''https://example.org/pic.png'' ''/audio/''"
    by simp
  from c [OF this]
  have 3: "deleteFile sample_uploads sample_disk_photo ''https://example.org/pic.png'' =
       (Rejected (Error ''Type de fichier non reconnu''), sample_disk_photo)" .
  from n pt m t1 1 pp 2 3 show ?thesis by simp
qed

text \<open>
  The claim as stated fails when deleting the thumbnail fails: with a directory at the
  thumbnail's path and no primary file, the call is rejected instead of returning false.
\<close>

theorem deleteFile_thumbnail_error_propagates:
  "str_includes ''/uploads/photos/pic.png'' ''/photos/''
   \<and> sample_disk_thumbnail_directory ''/srv/uploads/thumbnails/thumb_pic.png'' = Some (Directory 4096)
   \<and> \<not> existsSync sample_disk_thumbnail_directory ''/srv/uploads/photos/pic.png''
   \<and> deleteFile sample_uploads sample_disk_thumbnail_directory ''/uploads/photos/pic.png'' =
       (Rejected (Error ''EISDIR: illegal operation on a directory, unlink''),
        sample_disk_thumbnail_directory)"
  by (simp add: deleteFile_def Let_def existsSync_def unlinkSync_def basename_def
      uploads_join_def sample_uploads_def sample_disk_thumbnail_directory_def)

end
